theory Spec2Isabelle
  imports Complex_Main "HOL-Library.Multiset"
begin

text \<open>
  The triplet seed finder of \<^verbatim>\<open>Core/include/Acts/Seeding/Seedfinder.ipp\<close>: the
  constructor \<^verbatim>\<open>Seedfinder::Seedfinder\<close>, the index build \<^verbatim>\<open>initState\<close>, the seed
  search \<^verbatim>\<open>createSeedsForRegion\<close> for one cell of the index, and the conformal
  transformation \<^verbatim>\<open>transformCoordinates\<close>. Each function is translated into a function
  of the same name; the bodies of the loops of \<^verbatim>\<open>initState\<close> and
  \<^verbatim>\<open>createSeedsForRegion\<close> are functions of their own.
\<close>

section \<open>Floating-point values\<close>

text \<open>
  The seed finder computes in \<^verbatim>\<open>float\<close>. Values that the program reads from its
  input (coordinates, covariances, the user's configuration) are modelled as finite
  reals. The result of an arithmetic operation is a value of type \<open>fl\<close>, which adds the
  two infinities and not-a-number of IEEE 754; arithmetic and comparisons on \<open>fl\<close>
  follow the IEEE rules for these special values and are exact on finite values. The
  sign of zero is not modelled (a zero divisor is taken as \<open>+0\<close>).

  The doublet loops decide on every candidate by comparing rounded values with the
  configured bounds: there each subtraction, product and quotient is rounded to
  binary32 (\<open>round32\<close> below). In the conformal transformation, the triplet test and
  the constructor the arithmetic is exact on finite values; rounding and the overflow
  of finite results are not modelled there.
\<close>

datatype fl = Fin real | PInf | NInf | NaN

instantiation fl :: "{plus, minus, uminus, times, inverse, abs, ord}"
begin

fun uminus_fl :: "fl \<Rightarrow> fl" where
  "uminus_fl (Fin a) = Fin (- a)"
| "uminus_fl PInf = NInf"
| "uminus_fl NInf = PInf"
| "uminus_fl NaN = NaN"

fun plus_fl :: "fl \<Rightarrow> fl \<Rightarrow> fl" where
  "plus_fl (Fin a) (Fin b) = Fin (a + b)"
| "plus_fl NaN _ = NaN"
| "plus_fl _ NaN = NaN"
| "plus_fl PInf NInf = NaN"
| "plus_fl NInf PInf = NaN"
| "plus_fl PInf _ = PInf"
| "plus_fl _ PInf = PInf"
| "plus_fl NInf _ = NInf"
| "plus_fl _ NInf = NInf"

fun minus_fl :: "fl \<Rightarrow> fl \<Rightarrow> fl" where
  "minus_fl (Fin a) (Fin b) = Fin (a - b)"
| "minus_fl a b = a + (- b)"

fun times_fl :: "fl \<Rightarrow> fl \<Rightarrow> fl" where
  "times_fl (Fin a) (Fin b) = Fin (a * b)"
| "times_fl NaN _ = NaN"
| "times_fl _ NaN = NaN"
| "times_fl PInf (Fin b) = (if b = 0 then NaN else if 0 < b then PInf else NInf)"
| "times_fl NInf (Fin b) = (if b = 0 then NaN else if 0 < b then NInf else PInf)"
| "times_fl (Fin a) PInf = (if a = 0 then NaN else if 0 < a then PInf else NInf)"
| "times_fl (Fin a) NInf = (if a = 0 then NaN else if 0 < a then NInf else PInf)"
| "times_fl PInf PInf = PInf"
| "times_fl PInf NInf = NInf"
| "times_fl NInf PInf = NInf"
| "times_fl NInf NInf = PInf"

fun divide_fl :: "fl \<Rightarrow> fl \<Rightarrow> fl" where
  "divide_fl (Fin a) (Fin b) =
     (if b = 0 then (if a = 0 then NaN else if 0 < a then PInf else NInf)
      else Fin (a / b))"
| "divide_fl NaN _ = NaN"
| "divide_fl _ NaN = NaN"
| "divide_fl (Fin a) PInf = Fin 0"
| "divide_fl (Fin a) NInf = Fin 0"
| "divide_fl PInf (Fin b) = (if 0 \<le> b then PInf else NInf)"
| "divide_fl NInf (Fin b) = (if 0 \<le> b then NInf else PInf)"
| "divide_fl PInf PInf = NaN"
| "divide_fl PInf NInf = NaN"
| "divide_fl NInf PInf = NaN"
| "divide_fl NInf NInf = NaN"

definition inverse_fl :: "fl \<Rightarrow> fl" where
  "inverse_fl a = divide (Fin 1) a"

fun abs_fl :: "fl \<Rightarrow> fl" where
  "abs_fl (Fin a) = Fin \<bar>a\<bar>"
| "abs_fl PInf = PInf"
| "abs_fl NInf = PInf"
| "abs_fl NaN = NaN"

fun less_fl :: "fl \<Rightarrow> fl \<Rightarrow> bool" where
  "less_fl (Fin a) (Fin b) = (a < b)"
| "less_fl NaN _ = False"
| "less_fl _ NaN = False"
| "less_fl _ NInf = False"
| "less_fl PInf _ = False"
| "less_fl NInf _ = True"
| "less_fl (Fin a) PInf = True"

fun less_eq_fl :: "fl \<Rightarrow> fl \<Rightarrow> bool" where
  "less_eq_fl (Fin a) (Fin b) = (a \<le> b)"
| "less_eq_fl NaN _ = False"
| "less_eq_fl _ NaN = False"
| "less_eq_fl NInf _ = True"
| "less_eq_fl _ PInf = True"
| "less_eq_fl PInf _ = False"
| "less_eq_fl (Fin a) NInf = False"

instance ..

end

text \<open>\<^verbatim>\<open>std::sqrt\<close> and \<^verbatim>\<open>std::log\<close>: not-a-number outside their domain.\<close>

fun fsqrt :: "fl \<Rightarrow> fl" where
  "fsqrt (Fin a) = (if a < 0 then NaN else Fin (sqrt a))"
| "fsqrt PInf = PInf"
| "fsqrt NInf = NaN"
| "fsqrt NaN = NaN"

fun flog :: "fl \<Rightarrow> fl" where
  "flog (Fin a) = (if a < 0 then NaN else if a = 0 then NInf else Fin (ln a))"
| "flog PInf = PInf"
| "flog NInf = NaN"
| "flog NaN = NaN"

text \<open>
  A quotient whose divisor is checked: \<open>None\<close> records that the program divided by
  zero. The triplet test uses it so that a division by zero is an outcome of its own.
\<close>

definition cdiv :: "fl \<Rightarrow> fl \<Rightarrow> fl option" where
  "cdiv a b = (if b = Fin 0 then None else Some (a / b))"

text \<open>
  Rounding to binary32, the format of \<^verbatim>\<open>float\<close>: to the nearest representable value,
  ties to the even significand, with gradual underflow and with overflow to infinity.
  \<open>roundEven\<close> rounds a real to the nearest integer, ties to the even one.
  \<open>exponent32 a\<close> is the binary exponent of \<open>a \<ge> 0\<close>, found by halving or doubling; it
  is held at \<open>-126\<close>, the exponent of the subnormal values, and at \<open>128\<close>, beyond the
  largest finite value. The significand has 24 bits, so the unit in the last place is
  \<open>2 powi (exponent32 a - 23)\<close>, and \<open>magnitude32 a\<close> is the multiple of it nearest to
  \<open>a\<close>.
\<close>

definition roundEven :: "real \<Rightarrow> int" where
  "roundEven x =
    (let f = \<lfloor>x\<rfloor>; d = x - of_int f
     in if d < 1 / 2 then f else if 1 / 2 < d then f + 1 else if even f then f else f + 1)"

fun halvings :: "nat \<Rightarrow> real \<Rightarrow> nat" where
  "halvings 0 a = 0"
| "halvings (Suc n) a = (if a < 2 then 0 else Suc (halvings n (a / 2)))"

fun doublings :: "nat \<Rightarrow> real \<Rightarrow> nat" where
  "doublings 0 a = 0"
| "doublings (Suc n) a = (if 1 \<le> a then 0 else Suc (doublings n (2 * a)))"

definition exponent32 :: "real \<Rightarrow> int" where
  "exponent32 a = (if 1 \<le> a then int (halvings 128 a) else - int (doublings 126 a))"

definition magnitude32 :: "real \<Rightarrow> real" where
  "magnitude32 a = (let ulp = 2 powi (exponent32 a - 23) in of_int (roundEven (a / ulp)) * ulp)"

definition round32 :: "real \<Rightarrow> fl" where
  "round32 x =
    (let r = magnitude32 \<bar>x\<bar>
     in if 2 ^ 128 \<le> r then (if 0 < x then PInf else NInf)
        else Fin (if 0 \<le> x then r else - r))"

fun rnd :: "fl \<Rightarrow> fl" where
  "rnd (Fin a) = round32 a"
| "rnd PInf = PInf"
| "rnd NInf = NInf"
| "rnd NaN = NaN"

text \<open>
  The operations of \<^verbatim>\<open>float\<close> on \<^verbatim>\<open>float\<close> operands: the exact result, rounded. Each
  operation rounds on its own (no fused multiply-add, no wider intermediate format).
\<close>

definition sub32 :: "fl \<Rightarrow> fl \<Rightarrow> fl" where
  "sub32 a b = rnd (a - b)"

definition mul32 :: "fl \<Rightarrow> fl \<Rightarrow> fl" where
  "mul32 a b = rnd (a * b)"

definition div32 :: "fl \<Rightarrow> fl \<Rightarrow> fl" where
  "div32 a b = rnd (a / b)"

section \<open>Data model\<close>

text \<open>
  \<^verbatim>\<open>LinCircle\<close>: the conformal record of a (middle, partner) pair, with the field
  names of the source.
\<close>

record LinCircle =
  Zo :: fl
  cotTheta :: fl
  iDeltaR :: fl
  Er :: fl
  U :: fl
  V :: fl

text \<open>
  \<^verbatim>\<open>SeedfinderConfig\<close>: the fields \<^verbatim>\<open>Seedfinder.ipp\<close> reads and writes. The five
  derived constants are computed by the constructor and can be non-finite.
\<close>

record SeedfinderConfig =
  minPt :: real
  cotThetaMax :: real
  deltaRMin :: real
  deltaRMax :: real
  impactMax :: real
  sigmaScattering :: real
  collisionRegionMin :: real
  collisionRegionMax :: real
  phiMin :: real
  phiMax :: real
  zMin :: real
  zMax :: real
  rMax :: real
  bFieldInZ :: real
  beamPos :: "real \<times> real"
  radLengthPerSeed :: real
  zAlign :: real
  rAlign :: real
  sigmaError :: real
  highland :: fl
  maxScatteringAngle2 :: fl
  pTPerHelixRadius :: fl
  minHelixDiameter2 :: fl
  pT2perRadius :: fl

section \<open>The triplet test\<close>

text \<open>
  The body of the loop over top candidates in \<^verbatim>\<open>createSeedsForRegion\<close>, for one
  bottom record \<open>lb\<close> and one top record \<open>lt\<close>. Every \<^verbatim>\<open>continue\<close> of the source is a
  verdict of its own; \<open>Accept\<close> carries the curvature and the impact parameter that
  the source pushes; \<open>DivisionByZero\<close> is the outcome of a division whose divisor is
  zero. \<open>uninit\<close> is the content of the variable \<^verbatim>\<open>dCotThetaMinusError2\<close>, which
  the source declares without a value.
\<close>

datatype verdict =
    RejectScatteringInRegion
  | RejectParallel
  | RejectHelixRadius
  | RejectScatteringPt
  | RejectImpact
  | DivisionByZero
  | Accept fl fl

definition tripletTest ::
  "SeedfinderConfig \<Rightarrow> real \<Rightarrow> real \<Rightarrow> real \<Rightarrow> LinCircle \<Rightarrow> LinCircle \<Rightarrow> fl \<Rightarrow> verdict" where
  "tripletTest cfg rM covrM covzM lb lt uninit =
    (let cotThetaB = cotTheta lb;
         Vb = V lb;
         Ub = U lb;
         ErB = Er lb;
         iDeltaRB = iDeltaR lb;
         iSinTheta2 = Fin 1 + cotThetaB * cotThetaB;
         scatteringInRegion2 = maxScatteringAngle2 cfg * iSinTheta2;
         scatteringInRegion2 =
           scatteringInRegion2 * (Fin (sigmaScattering cfg) * Fin (sigmaScattering cfg));
         error2 = Er lt + ErB +
           Fin 2 * (cotThetaB * cotTheta lt * Fin covrM + Fin covzM) * iDeltaRB * iDeltaR lt;
         deltaCotTheta = cotThetaB - cotTheta lt;
         deltaCotTheta2 = deltaCotTheta * deltaCotTheta;
         dCotThetaMinusError2 =
           (if Fin 0 < deltaCotTheta2 - error2
            then (let deltaCotTheta = \<bar>deltaCotTheta\<bar>;
                      error = fsqrt error2
                  in deltaCotTheta2 + error2 - Fin 2 * deltaCotTheta * error)
            else uninit)
     in
     if Fin 0 < deltaCotTheta2 - error2 \<and> scatteringInRegion2 < dCotThetaMinusError2
     then RejectScatteringInRegion
     else
       let dU = U lt - Ub in
       if dU = Fin 0 then RejectParallel
       else
         (case cdiv (V lt - Vb) dU of
            None \<Rightarrow> DivisionByZero
          | Some A \<Rightarrow>
              let S2 = Fin 1 + A * A;
                  B = Vb - A * Ub;
                  B2 = B * B
              in
              if S2 < B2 * minHelixDiameter2 cfg then RejectHelixRadius
              else
                (case cdiv B2 S2 of
                   None \<Rightarrow> DivisionByZero
                 | Some iHelixDiameter2 \<Rightarrow>
                     let pT2scatter = Fin 4 * iHelixDiameter2 * pT2perRadius cfg;
                         p2scatter = pT2scatter * iSinTheta2
                     in
                     if Fin 0 < deltaCotTheta2 - error2 \<and>
                        p2scatter * Fin (sigmaScattering cfg) * Fin (sigmaScattering cfg)
                          < dCotThetaMinusError2
                     then RejectScatteringPt
                     else
                       let Im = \<bar>(A - B * Fin rM) * Fin rM\<bar> in
                       if Im \<le> Fin (impactMax cfg)
                       then (case cdiv B (fsqrt S2) of
                               None \<Rightarrow> DivisionByZero
                             | Some curvature \<Rightarrow> Accept curvature Im)
                       else RejectImpact)))"

text \<open>
  The quantities of the triplet predicate as the specification names them
  (section 4.5, steps 1 to 9).
\<close>

definition tripletError2 :: "real \<Rightarrow> real \<Rightarrow> LinCircle \<Rightarrow> LinCircle \<Rightarrow> fl" where
  "tripletError2 covrM covzM lb lt =
     Er lt + Er lb +
     Fin 2 * (cotTheta lb * cotTheta lt * Fin covrM + Fin covzM) * iDeltaR lb * iDeltaR lt"

definition deltaCotTheta2 :: "LinCircle \<Rightarrow> LinCircle \<Rightarrow> fl" where
  "deltaCotTheta2 lb lt = (cotTheta lb - cotTheta lt) * (cotTheta lb - cotTheta lt)"

definition scatterD :: "real \<Rightarrow> real \<Rightarrow> LinCircle \<Rightarrow> LinCircle \<Rightarrow> fl" where
  "scatterD covrM covzM lb lt =
     deltaCotTheta2 lb lt + tripletError2 covrM covzM lb lt
       - Fin 2 * \<bar>cotTheta lb - cotTheta lt\<bar> * fsqrt (tripletError2 covrM covzM lb lt)"

definition iSinTheta2 :: "LinCircle \<Rightarrow> fl" where
  "iSinTheta2 lb = Fin 1 + cotTheta lb * cotTheta lb"

definition sigmaScattering2 :: "SeedfinderConfig \<Rightarrow> fl" where
  "sigmaScattering2 cfg = Fin (sigmaScattering cfg) * Fin (sigmaScattering cfg)"

definition scatteringInRegion2 :: "SeedfinderConfig \<Rightarrow> LinCircle \<Rightarrow> fl" where
  "scatteringInRegion2 cfg lb = maxScatteringAngle2 cfg * iSinTheta2 lb * sigmaScattering2 cfg"

definition conformalDU :: "LinCircle \<Rightarrow> LinCircle \<Rightarrow> fl" where
  "conformalDU lb lt = U lt - U lb"

definition conformalA :: "LinCircle \<Rightarrow> LinCircle \<Rightarrow> fl" where
  "conformalA lb lt = (V lt - V lb) / conformalDU lb lt"

definition conformalS2 :: "LinCircle \<Rightarrow> LinCircle \<Rightarrow> fl" where
  "conformalS2 lb lt = Fin 1 + conformalA lb lt * conformalA lb lt"

definition conformalB :: "LinCircle \<Rightarrow> LinCircle \<Rightarrow> fl" where
  "conformalB lb lt = V lb - conformalA lb lt * U lb"

definition conformalB2 :: "LinCircle \<Rightarrow> LinCircle \<Rightarrow> fl" where
  "conformalB2 lb lt = conformalB lb lt * conformalB lb lt"

definition p2scatter :: "SeedfinderConfig \<Rightarrow> LinCircle \<Rightarrow> LinCircle \<Rightarrow> fl" where
  "p2scatter cfg lb lt =
     Fin 4 * (conformalB2 lb lt / conformalS2 lb lt) * pT2perRadius cfg * iSinTheta2 lb"

definition impactParameter :: "real \<Rightarrow> LinCircle \<Rightarrow> LinCircle \<Rightarrow> fl" where
  "impactParameter rM lb lt =
     \<bar>(conformalA lb lt - conformalB lb lt * Fin rM) * Fin rM\<bar>"

definition isRejection :: "verdict \<Rightarrow> bool" where
  "isRejection v =
     (v = RejectScatteringInRegion \<or> v = RejectParallel \<or> v = RejectHelixRadius \<or>
      v = RejectScatteringPt \<or> v = RejectImpact)"

text \<open>
  The triplet predicate as the chain of cuts of the specification (section 4.5,
  steps 4 to 10), on the quantities above.
\<close>

definition tripletVerdict ::
  "SeedfinderConfig \<Rightarrow> real \<Rightarrow> real \<Rightarrow> real \<Rightarrow> LinCircle \<Rightarrow> LinCircle \<Rightarrow> verdict" where
  "tripletVerdict cfg rM covrM covzM lb lt =
    (if Fin 0 < deltaCotTheta2 lb lt - tripletError2 covrM covzM lb lt \<and>
        scatteringInRegion2 cfg lb < scatterD covrM covzM lb lt
     then RejectScatteringInRegion
     else if conformalDU lb lt = Fin 0 then RejectParallel
     else if conformalS2 lb lt < conformalB2 lb lt * minHelixDiameter2 cfg
     then RejectHelixRadius
     else if Fin 0 < deltaCotTheta2 lb lt - tripletError2 covrM covzM lb lt \<and>
        p2scatter cfg lb lt * sigmaScattering2 cfg < scatterD covrM covzM lb lt
     then RejectScatteringPt
     else if impactParameter rM lb lt \<le> Fin (impactMax cfg)
     then Accept (conformalB lb lt / fsqrt (conformalS2 lb lt)) (impactParameter rM lb lt)
     else RejectImpact)"

section \<open>Spacepoints and the conformal transformation\<close>

text \<open>
  \<^verbatim>\<open>InternalSpacePoint\<close>, read through its accessors \<^verbatim>\<open>x()\<close>, \<^verbatim>\<open>y()\<close>, \<^verbatim>\<open>z()\<close>,
  \<^verbatim>\<open>radius()\<close>, \<^verbatim>\<open>phi()\<close>, \<^verbatim>\<open>covr()\<close>, \<^verbatim>\<open>covz()\<close> and \<^verbatim>\<open>sp()\<close>; the fields carry
  the prefix \<open>isp_\<close>. \<open>'sp\<close> is the external spacepoint type, the template
  parameter of the source.
\<close>

record 'sp InternalSpacePoint =
  isp_x :: real
  isp_y :: real
  isp_z :: real
  isp_radius :: real
  isp_phi :: real
  isp_covr :: real
  isp_covz :: real
  isp_sp :: 'sp

text \<open>
  \<^verbatim>\<open>transformCoordinates\<close>: one \<^verbatim>\<open>LinCircle\<close> per spacepoint of \<open>vec\<close>, pushed onto
  \<open>linCircleVec\<close>.
\<close>

definition transformCoordinates ::
  "'sp InternalSpacePoint list \<Rightarrow> 'sp InternalSpacePoint \<Rightarrow> bool \<Rightarrow> LinCircle list
     \<Rightarrow> LinCircle list" where
  "transformCoordinates vec spM bottom linCircleVec =
    (let xM = isp_x spM;
         yM = isp_y spM;
         zM = isp_z spM;
         rM = isp_radius spM;
         covzM = isp_covz spM;
         covrM = isp_covr spM;
         cosPhiM = Fin xM / Fin rM;
         sinPhiM = Fin yM / Fin rM
     in foldl
          (\<lambda>linCircleVec sp.
             let deltaX = isp_x sp - xM;
                 deltaY = isp_y sp - yM;
                 deltaZ = isp_z sp - zM;
                 x = Fin deltaX * cosPhiM + Fin deltaY * sinPhiM;
                 y = Fin deltaY * cosPhiM - Fin deltaX * sinPhiM;
                 iDeltaR2 = Fin 1 / Fin (deltaX * deltaX + deltaY * deltaY);
                 iDeltaR = fsqrt iDeltaR2;
                 bottomFactor =
                   1 * (if \<not> bottom then 1 else 0) - 1 * (if bottom then (1::int) else 0);
                 cot_theta = Fin deltaZ * iDeltaR * Fin (real_of_int bottomFactor);
                 l = \<lparr> Zo = Fin zM - Fin rM * cot_theta,
                       cotTheta = cot_theta,
                       iDeltaR = iDeltaR,
                       Er = (Fin (covzM + isp_covz sp) +
                             (cot_theta * cot_theta) * Fin (covrM + isp_covr sp)) * iDeltaR2,
                       U = x * iDeltaR2,
                       V = y * iDeltaR2 \<rparr>
             in linCircleVec @ [l])
          linCircleVec vec)"



section \<open>The doublet builder\<close>

text \<open>
  The loop over one bottom bin and the loop over one top bin of
  \<^verbatim>\<open>createSeedsForRegion\<close>. A \<^verbatim>\<open>continue\<close> goes on with the rest of the bin, a
  \<^verbatim>\<open>break\<close> leaves the bin; the result is what the loop pushes onto
  \<^verbatim>\<open>compatBottomSP\<close> (\<^verbatim>\<open>compatTopSP\<close>), in order. All variables of the two loops are
  \<^verbatim>\<open>float\<close>, and every operation rounds to binary32.
\<close>

fun bottomBinLoop ::
  "SeedfinderConfig \<Rightarrow> 'sp InternalSpacePoint \<Rightarrow> 'sp InternalSpacePoint list
     \<Rightarrow> 'sp InternalSpacePoint list" where
  "bottomBinLoop cfg spM [] = []"
| "bottomBinLoop cfg spM (spB # bottomBin) =
    (let rM = Fin (isp_radius spM);
         zM = Fin (isp_z spM);
         rB = Fin (isp_radius spB);
         deltaR = sub32 rM rB
     in if deltaR > Fin (deltaRMax cfg) then bottomBinLoop cfg spM bottomBin
        else if deltaR < Fin (deltaRMin cfg) then []
        else
          let cotTheta = div32 (sub32 zM (Fin (isp_z spB))) deltaR in
          if \<bar>cotTheta\<bar> > Fin (cotThetaMax cfg) then bottomBinLoop cfg spM bottomBin
          else
            let zOrigin = sub32 zM (mul32 rM cotTheta) in
            if zOrigin < Fin (collisionRegionMin cfg) \<or> zOrigin > Fin (collisionRegionMax cfg)
            then bottomBinLoop cfg spM bottomBin
            else spB # bottomBinLoop cfg spM bottomBin)"

fun topBinLoop ::
  "SeedfinderConfig \<Rightarrow> 'sp InternalSpacePoint \<Rightarrow> 'sp InternalSpacePoint list
     \<Rightarrow> 'sp InternalSpacePoint list" where
  "topBinLoop cfg spM [] = []"
| "topBinLoop cfg spM (spT # topBin) =
    (let rM = Fin (isp_radius spM);
         zM = Fin (isp_z spM);
         rT = Fin (isp_radius spT);
         deltaR = sub32 rT rM
     in if deltaR < Fin (deltaRMin cfg) then topBinLoop cfg spM topBin
        else if deltaR > Fin (deltaRMax cfg) then []
        else
          let cotTheta = div32 (sub32 (Fin (isp_z spT)) zM) deltaR in
          if \<bar>cotTheta\<bar> > Fin (cotThetaMax cfg) then topBinLoop cfg spM topBin
          else
            let zOrigin = sub32 zM (mul32 rM cotTheta) in
            if zOrigin < Fin (collisionRegionMin cfg) \<or> zOrigin > Fin (collisionRegionMax cfg)
            then topBinLoop cfg spM topBin
            else spT # topBinLoop cfg spM topBin)"

text \<open>
  The quantities of the doublet predicate of the specification (section 4.3), in the
  arithmetic of \<^verbatim>\<open>float\<close>: \<open>\<Delta>R\<close> and \<open>cot\<theta>\<close> for a bottom and for a top candidate, and
  \<open>zOrigin\<close>, anchored at the middle spacepoint.
\<close>

definition bottomDeltaR :: "'sp InternalSpacePoint \<Rightarrow> 'sp InternalSpacePoint \<Rightarrow> fl" where
  "bottomDeltaR m b = sub32 (Fin (isp_radius m)) (Fin (isp_radius b))"

definition bottomCotTheta :: "'sp InternalSpacePoint \<Rightarrow> 'sp InternalSpacePoint \<Rightarrow> fl" where
  "bottomCotTheta m b = div32 (sub32 (Fin (isp_z m)) (Fin (isp_z b))) (bottomDeltaR m b)"

definition topDeltaR :: "'sp InternalSpacePoint \<Rightarrow> 'sp InternalSpacePoint \<Rightarrow> fl" where
  "topDeltaR m t = sub32 (Fin (isp_radius t)) (Fin (isp_radius m))"

definition topCotTheta :: "'sp InternalSpacePoint \<Rightarrow> 'sp InternalSpacePoint \<Rightarrow> fl" where
  "topCotTheta m t = div32 (sub32 (Fin (isp_z t)) (Fin (isp_z m))) (topDeltaR m t)"

definition zOriginOf :: "'sp InternalSpacePoint \<Rightarrow> fl \<Rightarrow> fl" where
  "zOriginOf m cotTh = sub32 (Fin (isp_z m)) (mul32 (Fin (isp_radius m)) cotTh)"

text \<open>
  The doublet predicate as the specification states it: the three cuts as
  inequalities that hold.
\<close>

definition withinCuts :: "SeedfinderConfig \<Rightarrow> 'sp InternalSpacePoint \<Rightarrow> fl \<Rightarrow> fl \<Rightarrow> bool" where
  "withinCuts cfg m dR cotTh =
    (Fin (deltaRMin cfg) \<le> dR \<and> dR \<le> Fin (deltaRMax cfg) \<and>
     \<bar>cotTh\<bar> \<le> Fin (cotThetaMax cfg) \<and>
     Fin (collisionRegionMin cfg) \<le> zOriginOf m cotTh \<and>
     zOriginOf m cotTh \<le> Fin (collisionRegionMax cfg))"

definition bottomCompatible ::
  "SeedfinderConfig \<Rightarrow> 'sp InternalSpacePoint \<Rightarrow> 'sp InternalSpacePoint \<Rightarrow> bool" where
  "bottomCompatible cfg m b = withinCuts cfg m (bottomDeltaR m b) (bottomCotTheta m b)"

definition topCompatible ::
  "SeedfinderConfig \<Rightarrow> 'sp InternalSpacePoint \<Rightarrow> 'sp InternalSpacePoint \<Rightarrow> bool" where
  "topCompatible cfg m t = withinCuts cfg m (topDeltaR m t) (topCotTheta m t)"

text \<open>
  A candidate inside the \<open>\<Delta>R\<close> window whose quotient \<open>\<Delta>z / \<Delta>R\<close> is not a number: it
  has \<open>\<Delta>R = 0\<close> and \<open>\<Delta>z = 0\<close>.
\<close>

definition undefinedQuotient :: "SeedfinderConfig \<Rightarrow> fl \<Rightarrow> fl \<Rightarrow> bool" where
  "undefinedQuotient cfg dR cotTh =
    (Fin (deltaRMin cfg) \<le> dR \<and> dR \<le> Fin (deltaRMax cfg) \<and> cotTh = NaN)"

section \<open>The triplet builder\<close>

text \<open>
  The seed filter of the configuration (\<^verbatim>\<open>m_config.seedFilter\<close>): its two operations
  are the caller's policy and are parameters of the model. \<open>'iseed\<close> is the internal
  seed, \<open>'seed\<close> the seed of the output.
\<close>

record ('sp, 'iseed, 'seed) SeedFilter =
  filterSeeds_2SpFixed ::
    "'sp InternalSpacePoint \<Rightarrow> 'sp InternalSpacePoint \<Rightarrow> 'sp InternalSpacePoint list
       \<Rightarrow> fl list \<Rightarrow> fl list \<Rightarrow> fl \<Rightarrow> (fl \<times> 'iseed) list"
  filterSeeds_1SpFixed :: "(fl \<times> 'iseed) list \<Rightarrow> 'seed list \<Rightarrow> 'seed list"

text \<open>
  The loop over \<open>t\<close> for one bottom record \<open>lb\<close>: the three vectors \<^verbatim>\<open>topSpVec\<close>,
  \<^verbatim>\<open>curvatures\<close> and \<^verbatim>\<open>impactParameters\<close>, cleared before the loop; only an
  accepted candidate is pushed. \<open>uninit t\<close> is the content of the uninitialised
  variable in iteration \<open>t\<close>.
\<close>

definition topLoop ::
  "SeedfinderConfig \<Rightarrow> real \<Rightarrow> real \<Rightarrow> real \<Rightarrow> LinCircle
     \<Rightarrow> 'sp InternalSpacePoint list \<Rightarrow> LinCircle list \<Rightarrow> (nat \<Rightarrow> fl)
     \<Rightarrow> 'sp InternalSpacePoint list \<times> fl list \<times> fl list" where
  "topLoop cfg rM covrM covzM lb compatTopSP linCircleTop uninit =
    foldl
      (\<lambda>(topSpVec, curvatures, impactParameters) t.
         case tripletTest cfg rM covrM covzM lb (linCircleTop ! t) (uninit t) of
           Accept curvature impact \<Rightarrow>
             (topSpVec @ [compatTopSP ! t], curvatures @ [curvature],
              impactParameters @ [impact])
         | _ \<Rightarrow> (topSpVec, curvatures, impactParameters))
      ([], [], []) [0 ..< length compatTopSP]"

text \<open>
  The candidates the loop over \<open>t\<close> accepts among the indices \<open>ts\<close>, each with the
  curvature and the impact parameter of its verdict.
\<close>

definition acceptedTops ::
  "SeedfinderConfig \<Rightarrow> real \<Rightarrow> real \<Rightarrow> real \<Rightarrow> LinCircle
     \<Rightarrow> 'sp InternalSpacePoint list \<Rightarrow> LinCircle list \<Rightarrow> nat list
     \<Rightarrow> ('sp InternalSpacePoint \<times> fl \<times> fl) list" where
  "acceptedTops cfg rM covrM covzM lb compatTopSP linCircleTop ts =
     concat (map
       (\<lambda>t. case tripletVerdict cfg rM covrM covzM lb (linCircleTop ! t) of
               Accept curvature impact \<Rightarrow> [(compatTopSP ! t, curvature, impact)]
             | _ \<Rightarrow> []) ts)"

text \<open>The loop over \<open>b\<close>: the seeds of one middle spacepoint, \<^verbatim>\<open>seedsPerSpM\<close>.\<close>

definition bottomLoop ::
  "SeedfinderConfig \<Rightarrow> ('sp, 'iseed, 'seed) SeedFilter \<Rightarrow> 'sp InternalSpacePoint
     \<Rightarrow> 'sp InternalSpacePoint list \<Rightarrow> 'sp InternalSpacePoint list
     \<Rightarrow> LinCircle list \<Rightarrow> LinCircle list \<Rightarrow> (nat \<Rightarrow> nat \<Rightarrow> fl)
     \<Rightarrow> (fl \<times> 'iseed) list" where
  "bottomLoop cfg seedFilter spM compatBottomSP compatTopSP linCircleBottom linCircleTop uninit =
    foldl
      (\<lambda>seedsPerSpM b.
         let lb = linCircleBottom ! b;
             Zob = Zo lb;
             (topSpVec, curvatures, impactParameters) =
               topLoop cfg (isp_radius spM) (isp_covr spM) (isp_covz spM) lb
                 compatTopSP linCircleTop (uninit b)
         in if topSpVec \<noteq> []
            then seedsPerSpM @
                 filterSeeds_2SpFixed seedFilter (compatBottomSP ! b) spM topSpVec
                   curvatures impactParameters Zob
            else seedsPerSpM)
      [] [0 ..< length compatBottomSP]"

text \<open>
  \<^verbatim>\<open>SeedfinderStateIterator\<close>: the middle bin, the indices of the bottom and top bins
  the bin finders gave for it, the grid (\<^verbatim>\<open>it.grid->at(i)\<close> is \<open>grid it i\<close>) and the
  index of the output slot.
\<close>

record 'sp SeedfinderStateIterator =
  currentBin :: "'sp InternalSpacePoint list"
  bottomBinIndices :: "nat list"
  topBinIndices :: "nat list"
  grid :: "nat \<Rightarrow> 'sp InternalSpacePoint list"
  outputIndex :: nat

datatype error = UndefinedConversion | OutputIndexOutOfRange

text \<open>
  The body of the loop over the middle spacepoints of \<^verbatim>\<open>createSeedsForRegion\<close>, on
  the output vector \<^verbatim>\<open>state.outputVec\<close>. The source indexes the output vector
  without a check; an index outside it is the error \<open>OutputIndexOutOfRange\<close>.
\<close>

definition middleStep ::
  "SeedfinderConfig \<Rightarrow> ('sp, 'iseed, 'seed) SeedFilter \<Rightarrow> (nat \<Rightarrow> nat \<Rightarrow> fl)
     \<Rightarrow> 'sp SeedfinderStateIterator \<Rightarrow> 'sp InternalSpacePoint \<Rightarrow> 'seed list list
     \<Rightarrow> error + 'seed list list" where
  "middleStep cfg seedFilter uninit it spM outputVec =
    (let compatBottomSP =
           concat (map (\<lambda>bottomBinIndex. bottomBinLoop cfg spM (grid it bottomBinIndex))
                     (bottomBinIndices it))
     in if compatBottomSP = [] then Inr outputVec
        else
          let compatTopSP =
                concat (map (\<lambda>topBinIndex. topBinLoop cfg spM (grid it topBinIndex))
                          (topBinIndices it))
          in if compatTopSP = [] then Inr outputVec
             else
               let linCircleBottom = transformCoordinates compatBottomSP spM True [];
                   linCircleTop = transformCoordinates compatTopSP spM False [];
                   seedsPerSpM =
                     bottomLoop cfg seedFilter spM compatBottomSP compatTopSP
                       linCircleBottom linCircleTop uninit
               in if outputIndex it < length outputVec
                  then Inr (outputVec[outputIndex it :=
                              filterSeeds_1SpFixed seedFilter seedsPerSpM
                                (outputVec ! outputIndex it)])
                  else Inl OutputIndexOutOfRange)"

text \<open>
  \<^verbatim>\<open>createSeedsForRegion\<close>, as the loop over \<open>spIndex\<close>. Of the state it writes the
  output vector only, which is what the model passes and returns. \<open>uninit spIndex b t\<close>
  is the content of the uninitialised variable in that iteration of the three nested
  loops.
\<close>

fun middleLoop ::
  "SeedfinderConfig \<Rightarrow> ('sp, 'iseed, 'seed) SeedFilter \<Rightarrow> (nat \<Rightarrow> nat \<Rightarrow> nat \<Rightarrow> fl)
     \<Rightarrow> 'sp SeedfinderStateIterator \<Rightarrow> nat list \<Rightarrow> 'seed list list
     \<Rightarrow> error + 'seed list list" where
  "middleLoop cfg seedFilter uninit it [] outputVec = Inr outputVec"
| "middleLoop cfg seedFilter uninit it (spIndex # rest) outputVec =
    (case middleStep cfg seedFilter (uninit spIndex) it (currentBin it ! spIndex) outputVec of
       Inl e \<Rightarrow> Inl e
     | Inr outputVec' \<Rightarrow> middleLoop cfg seedFilter uninit it rest outputVec')"

definition createSeedsForRegion ::
  "SeedfinderConfig \<Rightarrow> ('sp, 'iseed, 'seed) SeedFilter \<Rightarrow> (nat \<Rightarrow> nat \<Rightarrow> nat \<Rightarrow> fl)
     \<Rightarrow> 'sp SeedfinderStateIterator \<Rightarrow> 'seed list list \<Rightarrow> error + 'seed list list" where
  "createSeedsForRegion cfg seedFilter uninit it outputVec =
     middleLoop cfg seedFilter uninit it [0 ..< length (currentBin it)] outputVec"

section \<open>Construction\<close>

text \<open>\<^verbatim>\<open>std::pow(a, 2)\<close>.\<close>

definition fpow2 :: "fl \<Rightarrow> fl" where
  "fpow2 a = a * a"

text \<open>
  The constructor \<^verbatim>\<open>Seedfinder::Seedfinder\<close>: it copies the configuration and
  computes the five derived constants. It has no \<^verbatim>\<open>throw\<close>: the result is a sum
  only so that a signalled error could be told from a constructed finder.
\<close>

definition Seedfinder :: "SeedfinderConfig \<Rightarrow> error + SeedfinderConfig" where
  "Seedfinder config =
    (let m_config = config;
         m_config = m_config\<lparr> highland :=
           Fin 13.6 * fsqrt (Fin (radLengthPerSeed m_config)) *
             (Fin 1 + Fin 0.038 * flog (Fin (radLengthPerSeed m_config))) \<rparr>;
         maxScatteringAngle = highland m_config / Fin (minPt m_config);
         m_config = m_config\<lparr> maxScatteringAngle2 := maxScatteringAngle * maxScatteringAngle \<rparr>;
         m_config = m_config\<lparr> pTPerHelixRadius := Fin (300 * bFieldInZ m_config) \<rparr>;
         m_config = m_config\<lparr> minHelixDiameter2 :=
           fpow2 (Fin (minPt m_config * 2) / pTPerHelixRadius m_config) \<rparr>;
         m_config = m_config\<lparr> pT2perRadius :=
           fpow2 (highland m_config / pTPerHelixRadius m_config) \<rparr>
     in Inr m_config)"

text \<open>
  The consistency of the bounds the specification lists (section 7): what a
  validating constructor would have to refuse.
\<close>

definition inconsistentBounds :: "SeedfinderConfig \<Rightarrow> bool" where
  "inconsistentBounds cfg =
    (deltaRMin cfg > deltaRMax cfg \<or> minPt cfg \<le> 0 \<or>
     phiMin cfg \<ge> phiMax cfg \<or> zMin cfg \<ge> zMax cfg)"

section \<open>Building the index\<close>

text \<open>
  An external spacepoint is read through \<^verbatim>\<open>x()\<close>, \<^verbatim>\<open>y()\<close> and \<^verbatim>\<open>z()\<close>; whatever
  else the caller's type holds is the extension of the record. The input range holds
  pointers: \<open>None\<close> is the null pointer.
\<close>

record SpacePoint =
  sp_x :: real
  sp_y :: real
  sp_z :: real

text \<open>\<^verbatim>\<open>std::atan2\<close> on finite arguments.\<close>

definition atan2 :: "real \<Rightarrow> real \<Rightarrow> real" where
  "atan2 b a =
    (if 0 < a then arctan (b / a)
     else if a < 0 then (if 0 \<le> b then arctan (b / a) + pi else arctan (b / a) - pi)
     else if 0 < b then pi / 2
     else if b < 0 then - pi / 2
     else 0)"

text \<open>
  Modelled from the spec: the class \<^verbatim>\<open>InternalSpacePoint\<close> is not part of the
  sources at hand. Its constructor takes the external spacepoint, its global position,
  the beam position and the covariance contributions; the position is translated by
  the beam position in the transverse plane, the radius is \<open>sqrt (x\<^sup>2 + y\<^sup>2)\<close> and
  \<open>\<phi> = atan2 y x\<close> of the translated position (section 3).
\<close>

definition makeInternalSpacePoint ::
  "'sp \<Rightarrow> real \<times> real \<times> real \<Rightarrow> real \<times> real \<Rightarrow> real \<times> real \<Rightarrow> 'sp InternalSpacePoint" where
  "makeInternalSpacePoint sp globalPos offsetXY cov =
    (case globalPos of (gx, gy, gz) \<Rightarrow>
       let mx = gx - fst offsetXY;
           my = gy - snd offsetXY
       in \<lparr> isp_x = mx, isp_y = my, isp_z = gz,
             isp_radius = sqrt (mx * mx + my * my),
             isp_phi = atan2 my mx,
             isp_covr = fst cov, isp_covz = snd cov,
             isp_sp = sp \<rparr>)"

text \<open>
  The conversion of a floating-point value to \<^verbatim>\<open>size_t\<close> (64 bits): the fraction is
  discarded; the conversion is undefined when the result is not a \<^verbatim>\<open>size_t\<close>.
\<close>

definition to_size_t :: "real \<Rightarrow> nat option" where
  "to_size_t v = (if - 1 < v \<and> v < 2 ^ 64 then Some (nat \<lfloor>v\<rfloor>) else None)"

text \<open>\<^verbatim>\<open>beamPos.norm()\<close>.\<close>

definition norm2 :: "real \<times> real \<Rightarrow> real" where
  "norm2 v = sqrt (fst v * fst v + snd v * snd v)"

text \<open>
  The body of the first loop of \<^verbatim>\<open>initState\<close>: one pointer of the input range, on
  the radius buckets \<^verbatim>\<open>rBins\<close>.
\<close>

definition fillRBin ::
  "SeedfinderConfig \<Rightarrow> ('a SpacePoint_scheme \<Rightarrow> real \<Rightarrow> real \<Rightarrow> real \<Rightarrow> real \<times> real) \<Rightarrow> nat
     \<Rightarrow> 'a SpacePoint_scheme InternalSpacePoint list list \<Rightarrow> 'a SpacePoint_scheme option
     \<Rightarrow> error + 'a SpacePoint_scheme InternalSpacePoint list list" where
  "fillRBin cfg covTool numRBins rBins it =
    (case it of
       None \<Rightarrow> Inr rBins
     | Some sp \<Rightarrow>
         let spX = sp_x sp;
             spY = sp_y sp;
             spZ = sp_z sp
         in if spZ > zMax cfg \<or> spZ < zMin cfg then Inr rBins
            else
              let spPhi = atan2 spY spX in
              if spPhi > phiMax cfg \<or> spPhi < phiMin cfg then Inr rBins
              else
                let cov = covTool sp (zAlign cfg) (rAlign cfg) (sigmaError cfg);
                    spPosition = (spX, spY, spZ);
                    isp = makeInternalSpacePoint sp spPosition (beamPos cfg) cov
                in (case to_size_t (isp_radius isp) of
                      None \<Rightarrow> Inl UndefinedConversion
                    | Some rIndex \<Rightarrow>
                        if rIndex \<ge> numRBins then Inr rBins
                        else Inr (rBins[rIndex := rBins ! rIndex @ [isp]])))"

fun fillRBins ::
  "SeedfinderConfig \<Rightarrow> ('a SpacePoint_scheme \<Rightarrow> real \<Rightarrow> real \<Rightarrow> real \<Rightarrow> real \<times> real) \<Rightarrow> nat
     \<Rightarrow> 'a SpacePoint_scheme InternalSpacePoint list list \<Rightarrow> 'a SpacePoint_scheme option list
     \<Rightarrow> error + 'a SpacePoint_scheme InternalSpacePoint list list" where
  "fillRBins cfg covTool numRBins rBins [] = Inr rBins"
| "fillRBins cfg covTool numRBins rBins (it # its) =
    (case fillRBin cfg covTool numRBins rBins it of
       Inl e \<Rightarrow> Inl e
     | Inr rBins' \<Rightarrow> fillRBins cfg covTool numRBins rBins' its)"

text \<open>
  \<^verbatim>\<open>SpacePointGridConfig\<close> and the grid. The grid's bins are addressed by a global
  bin index; \<open>globalBinFromPosition\<close> is the bin of a position \<open>(\<phi>, z)\<close>
  (\<^verbatim>\<open>atPosition\<close>), \<open>numLocalBins\<close> the number of bins along the two axes.
\<close>

record SpacePointGridConfig =
  grid_bFieldInZ :: real
  grid_minPt :: real
  grid_rMax :: real
  grid_zMax :: real
  grid_zMin :: real
  grid_deltaRMax :: real
  grid_cotThetaMax :: real

record GridAxes =
  numLocalBins :: "nat \<times> nat"
  globalBinFromPosition :: "real \<times> real \<Rightarrow> nat"

record 'sp SpacePointGrid =
  axes :: GridAxes
  bins :: "nat \<Rightarrow> 'sp InternalSpacePoint list"

text \<open>
  Modelled from the spec: \<^verbatim>\<open>SpacePointGridCreator::createGrid\<close> is not part of the
  sources at hand. The cell sizes it derives from the configuration are the
  parameter \<open>gridAxes\<close>; the grid it returns holds no spacepoint (section 3, Index).
\<close>

definition createGrid ::
  "(SpacePointGridConfig \<Rightarrow> GridAxes) \<Rightarrow> SpacePointGridConfig \<Rightarrow> 'sp SpacePointGrid" where
  "createGrid gridAxes gridConf = \<lparr> axes = gridAxes gridConf, bins = (\<lambda>i. []) \<rparr>"

text \<open>The second loop of \<^verbatim>\<open>initState\<close>: the buckets are flushed into the grid.\<close>

definition fillGrid ::
  "'sp SpacePointGrid \<Rightarrow> 'sp InternalSpacePoint list list \<Rightarrow> 'sp SpacePointGrid" where
  "fillGrid g rBins =
    foldl
      (\<lambda>g isp.
         let spLocation = (isp_phi isp, isp_z isp);
             bin = globalBinFromPosition (axes g) spLocation
         in g\<lparr> bins := (bins g)(bin := bins g bin @ [isp]) \<rparr>)
      g (concat rBins)"

record ('sp, 'bf, 'seed) SeedfinderState =
  binnedSP :: "'sp SpacePointGrid"
  bottomBinFinder :: 'bf
  topBinFinder :: 'bf
  outputVec :: "'seed list list"

definition initState ::
  "SeedfinderConfig \<Rightarrow> (SpacePointGridConfig \<Rightarrow> GridAxes)
     \<Rightarrow> 'a SpacePoint_scheme option list
     \<Rightarrow> ('a SpacePoint_scheme \<Rightarrow> real \<Rightarrow> real \<Rightarrow> real \<Rightarrow> real \<times> real) \<Rightarrow> 'bf \<Rightarrow> 'bf
     \<Rightarrow> error + ('a SpacePoint_scheme, 'bf, 'seed) SeedfinderState" where
  "initState cfg gridAxes sps covTool bottomFinder topFinder =
    (let gridConf = \<lparr> grid_bFieldInZ = bFieldInZ cfg, grid_minPt = minPt cfg,
                       grid_rMax = rMax cfg, grid_zMax = zMax cfg, grid_zMin = zMin cfg,
                       grid_deltaRMax = deltaRMax cfg,
                       grid_cotThetaMax = cotThetaMax cfg \<rparr>;
         grid = createGrid gridAxes gridConf
     in case to_size_t (rMax cfg + norm2 (beamPos cfg)) of
          None \<Rightarrow> Inl UndefinedConversion
        | Some numRBins \<Rightarrow>
            (case fillRBins cfg covTool numRBins (replicate numRBins []) sps of
               Inl e \<Rightarrow> Inl e
             | Inr rBins \<Rightarrow>
                 let grid = fillGrid grid rBins;
                     numBins = numLocalBins (axes grid)
                 in Inr \<lparr> binnedSP = grid,
                          bottomBinFinder = bottomFinder,
                          topBinFinder = topFinder,
                          outputVec = replicate (fst numBins * snd numBins) [] \<rparr>))"

text \<open>
  What the first loop keeps of an input pointer, as a predicate and as the internal
  spacepoint made of it.
\<close>

definition inRegion :: "SeedfinderConfig \<Rightarrow> 'a SpacePoint_scheme \<Rightarrow> bool" where
  "inRegion cfg sp =
    (\<not> (sp_z sp > zMax cfg \<or> sp_z sp < zMin cfg) \<and>
     \<not> (atan2 (sp_y sp) (sp_x sp) > phiMax cfg \<or> atan2 (sp_y sp) (sp_x sp) < phiMin cfg))"

definition internalOf ::
  "SeedfinderConfig \<Rightarrow> ('a SpacePoint_scheme \<Rightarrow> real \<Rightarrow> real \<Rightarrow> real \<Rightarrow> real \<times> real)
     \<Rightarrow> 'a SpacePoint_scheme \<Rightarrow> 'a SpacePoint_scheme InternalSpacePoint" where
  "internalOf cfg covTool sp =
     makeInternalSpacePoint sp (sp_x sp, sp_y sp, sp_z sp) (beamPos cfg)
       (covTool sp (zAlign cfg) (rAlign cfg) (sigmaError cfg))"

text \<open>
  What the index build does with the input range, in the terms of the specification:
  the spacepoints behind the non-null pointers, the radius bucket of a spacepoint, the
  number of buckets, and the order in which the buckets are flushed into the grid.
\<close>

fun nonNull :: "'a option list \<Rightarrow> 'a list" where
  "nonNull [] = []"
| "nonNull (None # its) = nonNull its"
| "nonNull (Some sp # its) = sp # nonNull its"

definition bucketOf ::
  "SeedfinderConfig \<Rightarrow> ('a SpacePoint_scheme \<Rightarrow> real \<Rightarrow> real \<Rightarrow> real \<Rightarrow> real \<times> real)
     \<Rightarrow> 'a SpacePoint_scheme \<Rightarrow> nat" where
  "bucketOf cfg covTool sp = nat \<lfloor>isp_radius (internalOf cfg covTool sp)\<rfloor>"

definition numRBinsOf :: "SeedfinderConfig \<Rightarrow> nat" where
  "numRBinsOf cfg = nat \<lfloor>rMax cfg + norm2 (beamPos cfg)\<rfloor>"

definition flushOrder ::
  "SeedfinderConfig \<Rightarrow> ('a SpacePoint_scheme \<Rightarrow> real \<Rightarrow> real \<Rightarrow> real \<Rightarrow> real \<times> real)
     \<Rightarrow> 'a SpacePoint_scheme option list \<Rightarrow> 'a SpacePoint_scheme InternalSpacePoint list" where
  "flushOrder cfg covTool sps =
     concat (map (\<lambda>k. map (internalOf cfg covTool)
                         (filter (\<lambda>sp. inRegion cfg sp \<and> bucketOf cfg covTool sp = k)
                            (nonNull sps)))
               [0 ..< numRBinsOf cfg])"

section \<open>Example data\<close>

text \<open>
  The configuration of the end-to-end scenarios of the specification (section 8),
  with a radiation length of one so that the derived constants are rational, and the
  finder constructed from it.
\<close>

definition testConfig :: SeedfinderConfig where
  "testConfig =
    \<lparr> minPt = 400, cotThetaMax = 7.40627, deltaRMin = 5, deltaRMax = 270,
      impactMax = 10, sigmaScattering = 5,
      collisionRegionMin = - 150, collisionRegionMax = 150,
      phiMin = - pi, phiMax = pi, zMin = - 2800, zMax = 2800, rMax = 200,
      bFieldInZ = 0.002, beamPos = (0, 0), radLengthPerSeed = 1,
      zAlign = 0, rAlign = 0, sigmaError = 0,
      highland = Fin 0, maxScatteringAngle2 = Fin 0, pTPerHelixRadius = Fin 0,
      minHelixDiameter2 = Fin 0, pT2perRadius = Fin 0 \<rparr>"

definition testFinder :: SeedfinderConfig where
  "testFinder =
     testConfig\<lparr> highland := Fin (68 / 5), maxScatteringAngle2 := Fin (289 / 250000),
       pTPerHelixRadius := Fin (3 / 5), minHelixDiameter2 := Fin (16000000 / 9),
       pT2perRadius := Fin (4624 / 9) \<rparr>"

text \<open>A spacepoint on the x axis at radius \<open>r\<close> and height \<open>h\<close>, without covariance.\<close>

definition pointAt :: "real \<Rightarrow> real \<Rightarrow> unit InternalSpacePoint" where
  "pointAt r h =
    \<lparr> isp_x = r, isp_y = 0, isp_z = h, isp_radius = r, isp_phi = 0,
      isp_covr = 0, isp_covz = 0, isp_sp = () \<rparr>"

text \<open>
  The conformal records of the straight central track of scenario 1: bottom at
  radius 30 and top at radius 180, seen from the middle spacepoint at radius 80.
\<close>

definition straightBottom :: LinCircle where
  "straightBottom =
    \<lparr> Zo = Fin 0, cotTheta = Fin 0, iDeltaR = Fin (1 / 50), Er = Fin 0,
      U = Fin (- 1 / 50), V = Fin 0 \<rparr>"

definition straightTop :: LinCircle where
  "straightTop =
    \<lparr> Zo = Fin 0, cotTheta = Fin 0, iDeltaR = Fin (1 / 100), Er = Fin 0,
      U = Fin (1 / 100), V = Fin 0 \<rparr>"

text \<open>
  The test finder with the lower bound of the \<open>\<Delta>R\<close> window set to zero, and a
  spacepoint at radius 80 and height 1000 on the y axis.
\<close>

definition looseFinder :: SeedfinderConfig where
  "looseFinder = testFinder\<lparr> deltaRMin := 0 \<rparr>"

definition asidePoint :: "unit InternalSpacePoint" where
  "asidePoint =
    \<lparr> isp_x = 0, isp_y = 80, isp_z = 1000, isp_radius = 80, isp_phi = pi / 2,
      isp_covr = 0, isp_covz = 0, isp_sp = () \<rparr>"








text \<open>A configuration that violates every bound the specification lists.\<close>

definition badConfig :: SeedfinderConfig where
  "badConfig = testConfig\<lparr> deltaRMin := 270, deltaRMax := 5, minPt := 0,
     phiMin := 1, phiMax := - 1, zMin := 1, zMax := - 1 \<rparr>"

text \<open>
  A grid of one cell, a covariance tool that returns no covariance, two
  configurations with a small and with a fractional \<open>rMax\<close>, and an input range of
  three spacepoints on the x axis and a null pointer, with the state built from it.
\<close>

definition singleBinAxes :: GridAxes where
  "singleBinAxes = \<lparr> numLocalBins = (1, 1), globalBinFromPosition = (\<lambda>spLocation. 0) \<rparr>"

definition singleBin :: "SpacePointGridConfig \<Rightarrow> GridAxes" where
  "singleBin gridConf = singleBinAxes"

definition emptyBins :: "nat \<Rightarrow> SpacePoint InternalSpacePoint list" where
  "emptyBins i = []"

definition noCov :: "SpacePoint \<Rightarrow> real \<Rightarrow> real \<Rightarrow> real \<Rightarrow> real \<times> real" where
  "noCov sp zAl rAl sigma = (0, 0)"

definition smallConfig :: SeedfinderConfig where
  "smallConfig = testConfig\<lparr> rMax := 4 \<rparr>"

definition halfConfig :: SeedfinderConfig where
  "halfConfig = testConfig\<lparr> rMax := 21 / 2 \<rparr>"

definition spacePointAt :: "real \<Rightarrow> SpacePoint" where
  "spacePointAt r = \<lparr> sp_x = r, sp_y = 0, sp_z = 0 \<rparr>"

definition sampleRange :: "SpacePoint option list" where
  "sampleRange = [Some (spacePointAt 2), None, Some (spacePointAt 5), Some (spacePointAt 1)]"

definition sampleState :: "(SpacePoint, unit, unit) SeedfinderState" where
  "sampleState =
     \<lparr> binnedSP =
         \<lparr> axes = singleBinAxes,
           bins = emptyBins(0 := [internalOf smallConfig noCov (spacePointAt 1),
                                 internalOf smallConfig noCov (spacePointAt 2)]) \<rparr>,
       bottomBinFinder = (), topBinFinder = (), outputVec = [[]] \<rparr>"

definition emptyState :: "(SpacePoint, unit, unit) SeedfinderState" where
  "emptyState =
     \<lparr> binnedSP = \<lparr> axes = singleBinAxes, bins = emptyBins \<rparr>,
       bottomBinFinder = (), topBinFinder = (), outputVec = [[]] \<rparr>"

text \<open>
  A seed filter that keeps every triplet, and the iterator of scenario 1: the middle
  cell holds the spacepoint at radius 80, its only neighbour cell the three
  spacepoints of the straight track.
\<close>

definition testFilter ::
  "(unit, unit InternalSpacePoint \<times> unit InternalSpacePoint \<times> unit InternalSpacePoint,
    unit InternalSpacePoint \<times> unit InternalSpacePoint \<times> unit InternalSpacePoint) SeedFilter" where
  "testFilter =
    \<lparr> filterSeeds_2SpFixed =
        (\<lambda>spB spM topSpVec curvatures impactParameters zOrigin.
           map (\<lambda>spT. (Fin 1, (spB, spM, spT))) topSpVec),
      filterSeeds_1SpFixed = (\<lambda>seedsPerSpM outVec. outVec @ map snd seedsPerSpM) \<rparr>"

definition scenarioIterator :: "unit SeedfinderStateIterator" where
  "scenarioIterator =
    \<lparr> currentBin = [pointAt 80 0], bottomBinIndices = [0], topBinIndices = [0],
      grid = (\<lambda>i. [pointAt 30 0, pointAt 80 0, pointAt 180 0]), outputIndex = 0 \<rparr>"

section \<open>Properties of the floating-point layer\<close>

lemma one_plus_square_not_zero: "Fin 1 + (a::fl) * a \<noteq> Fin 0"
proof (cases a)
  case (Fin r)
  have "0 < 1 + r * r" by (rule add_pos_nonneg) simp_all
  then show ?thesis using Fin by simp
qed simp_all

lemma fsqrt_one_plus_square_not_zero: "fsqrt (Fin 1 + (a::fl) * a) \<noteq> Fin 0"
proof (cases a)
  case (Fin r)
  have "0 < 1 + r * r" by (rule add_pos_nonneg) simp_all
  then show ?thesis using Fin by simp
qed simp_all

text \<open>Comparisons on \<open>fl\<close>.\<close>

lemma fl_not_less: "a \<noteq> NaN \<Longrightarrow> b \<noteq> NaN \<Longrightarrow> \<not> a < b \<longleftrightarrow> b \<le> (a::fl)"
  by (cases a; cases b) auto

lemma fl_le_less_trans: "a \<le> b \<Longrightarrow> b < c \<Longrightarrow> a < (c::fl)"
  by (cases a; cases b; cases c) auto

lemma fl_less_le_trans: "a < b \<Longrightarrow> b \<le> c \<Longrightarrow> a < (c::fl)"
  by (cases a; cases b; cases c) auto

lemma fl_less_not_le: "a < b \<Longrightarrow> \<not> b \<le> (a::fl)"
  by (cases a; cases b) auto


section \<open>Rounding to binary32 is monotone\<close>

lemma roundEven_of_int: "roundEven (of_int k) = k"
  by (simp add: roundEven_def)

lemma roundEven_mono: "x \<le> y \<Longrightarrow> roundEven x \<le> roundEven y"
proof -
  assume le: "x \<le> y"
  have fl: "\<lfloor>x\<rfloor> \<le> \<lfloor>y\<rfloor>" using le by (rule floor_mono)
  have bx: "roundEven x \<le> \<lfloor>x\<rfloor> + 1" and by': "\<lfloor>y\<rfloor> \<le> roundEven y"
    by (auto simp: roundEven_def Let_def)
  show ?thesis
  proof (cases "\<lfloor>x\<rfloor> = \<lfloor>y\<rfloor>")
    case True
    then show ?thesis using le by (auto simp: roundEven_def Let_def)
  next
    case False
    with fl have "\<lfloor>x\<rfloor> + 1 \<le> \<lfloor>y\<rfloor>" by simp
    with bx by' show ?thesis by linarith
  qed
qed

lemma halvings_le: "halvings n a \<le> n"
  by (induction n a rule: halvings.induct) auto

lemma halvings_lower: "1 \<le> a \<Longrightarrow> 2 ^ halvings n a \<le> a"
  by (induction n a rule: halvings.induct) auto

lemma halvings_upper: "halvings n a < n \<Longrightarrow> a < 2 ^ (halvings n a + 1)"
  by (induction n a rule: halvings.induct) (auto split: if_splits)

lemma doublings_le: "doublings n a \<le> n"
  by (induction n a rule: doublings.induct) auto

lemma doublings_lower: "doublings n a < n \<Longrightarrow> 1 \<le> a * 2 ^ doublings n a"
  by (induction n a rule: doublings.induct) (auto split: if_splits simp: mult.assoc)

lemma doublings_upper: "a < 1 \<Longrightarrow> a * 2 ^ doublings n a < 2"
proof (induction n a rule: doublings.induct)
  case (1 a)
  then show ?case by simp
next
  case (2 n a)
  show ?case
  proof (cases "1 \<le> 2 * a")
    case True
    then have "doublings n (2 * a) = 0" by (cases n) auto
    with 2 show ?thesis by simp
  next
    case False
    with 2 have "2 * a * 2 ^ doublings n (2 * a) < 2" by simp
    with 2 show ?thesis by (simp add: mult.assoc)
  qed
qed

lemma exponent32_range: "- 126 \<le> exponent32 a \<and> exponent32 a \<le> 128"
  using halvings_le [of 128 a] doublings_le [of 126 a] by (auto simp: exponent32_def)

lemma exponent32_lower: "- 126 < exponent32 a \<Longrightarrow> 2 powi exponent32 a \<le> a"
proof (cases "1 \<le> a")
  case True
  then show ?thesis using halvings_lower [of a 128] by (simp add: exponent32_def)
next
  case False
  assume "- 126 < exponent32 a"
  with False have "doublings 126 a < 126" by (simp add: exponent32_def)
  from doublings_lower [OF this] have "1 \<le> a * 2 ^ doublings 126 a" .
  then have "1 / 2 ^ doublings 126 a \<le> a" by (simp add: field_simps)
  with False show ?thesis by (simp add: exponent32_def power_int_minus_divide)
qed

lemma exponent32_upper: "exponent32 a < 128 \<Longrightarrow> a < 2 powi (exponent32 a + 1)"
proof (cases "1 \<le> a")
  case True
  assume "exponent32 a < 128"
  with True have "halvings 128 a < 128" by (simp add: exponent32_def)
  from halvings_upper [OF this] True show ?thesis
    by (simp add: exponent32_def power_int_add)
next
  case False
  then have "a * 2 ^ doublings 126 a < 2" by (intro doublings_upper) simp
  then have "a < 2 * (1 / 2 ^ doublings 126 a)" by (simp add: field_simps)
  moreover have "(2::real) powi (- int (doublings 126 a) + 1) = 2 * (1 / 2 ^ doublings 126 a)"
    by (simp add: power_int_diff)
  ultimately show ?thesis using False by (simp add: exponent32_def)
qed

lemma exponent32_mono: "a \<le> b \<Longrightarrow> exponent32 a \<le> exponent32 b"
proof (rule ccontr)
  assume le: "a \<le> b" and "\<not> exponent32 a \<le> exponent32 b"
  then have lt: "exponent32 b < exponent32 a" by simp
  with exponent32_range [of a] exponent32_range [of b]
  have "- 126 < exponent32 a" "exponent32 b < 128" by linarith+
  then have "2 powi exponent32 a \<le> a" "b < 2 powi (exponent32 b + 1)"
    by (simp_all add: exponent32_lower exponent32_upper)
  moreover have "(2::real) powi (exponent32 b + 1) \<le> 2 powi exponent32 a"
    using lt by (intro power_int_increasing) auto
  ultimately show False using le by linarith
qed


lemma exponent32_eq:
  assumes "2 powi e \<le> a" "a < 2 powi (e + 1)" "- 126 \<le> e" "e \<le> 128"
  shows "exponent32 a = e"
proof (rule ccontr)
  assume "exponent32 a \<noteq> e"
  then consider (below) "exponent32 a < e" | (above) "e < exponent32 a" by linarith
  then show False
  proof cases
    case below
    with assms have "a < 2 powi (exponent32 a + 1)" by (intro exponent32_upper) simp
    moreover have "(2::real) powi (exponent32 a + 1) \<le> 2 powi e"
      using below by (intro power_int_increasing) auto
    ultimately show False using assms by linarith
  next
    case above
    with assms have "2 powi exponent32 a \<le> a" by (intro exponent32_lower) simp
    moreover have "(2::real) powi (e + 1) \<le> 2 powi exponent32 a"
      using above by (intro power_int_increasing) auto
    ultimately show False using assms by linarith
  qed
qed

lemma exponent32_subnormal:
  assumes "a < 2 powi (- 126)"
  shows "exponent32 a = - 126"
proof (rule ccontr)
  assume "exponent32 a \<noteq> - 126"
  with exponent32_range [of a] have above: "- 126 < exponent32 a" by simp
  then have "2 powi exponent32 a \<le> a" by (rule exponent32_lower)
  moreover have "(2::real) powi (- 126) \<le> 2 powi exponent32 a"
    using above by (intro power_int_increasing) auto
  ultimately show False using assms by linarith
qed

lemma magnitude32_zero: "magnitude32 0 = 0"
  by (simp add: magnitude32_def roundEven_def)

lemma magnitude32_nonneg: "0 \<le> a \<Longrightarrow> 0 \<le> magnitude32 a"
proof -
  assume "0 \<le> a"
  then have "0 \<le> a / 2 powi (exponent32 a - 23)" by simp
  from roundEven_mono [OF this] have "0 \<le> roundEven (a / 2 powi (exponent32 a - 23))"
    using roundEven_of_int [of 0] by simp
  then show ?thesis by (simp add: magnitude32_def Let_def)
qed

lemma magnitude32_upper:
  assumes "exponent32 a < 128"
  shows "magnitude32 a \<le> 2 powi (exponent32 a + 1)"
proof -
  let ?u = "(2::real) powi (exponent32 a - 23)"
  have split: "(2::real) powi (exponent32 a + 1) = of_int (2 ^ 24) * ?u"
    by (simp add: power_int_add power_int_diff)
  from exponent32_upper [OF assms] have "a / ?u \<le> of_int (2 ^ 24)"
    unfolding split by (simp add: field_simps)
  from roundEven_mono [OF this] have "roundEven (a / ?u) \<le> 2 ^ 24"
    by (simp only: roundEven_of_int)
  then have "real_of_int (roundEven (a / ?u)) \<le> of_int (2 ^ 24)"
    by (simp only: of_int_le_iff)
  then have "real_of_int (roundEven (a / ?u)) * ?u \<le> of_int (2 ^ 24) * ?u"
    by (intro mult_right_mono) simp_all
  then show ?thesis unfolding split by (simp add: magnitude32_def Let_def)
qed

lemma magnitude32_lower:
  assumes "- 126 < exponent32 a"
  shows "2 powi exponent32 a \<le> magnitude32 a"
proof -
  let ?u = "(2::real) powi (exponent32 a - 23)"
  have split: "(2::real) powi exponent32 a = of_int (2 ^ 23) * ?u"
    by (simp add: power_int_diff)
  from exponent32_lower [OF assms] have "of_int (2 ^ 23) \<le> a / ?u"
    by (subst (asm) split) (simp add: field_simps)
  from roundEven_mono [OF this] have "2 ^ 23 \<le> roundEven (a / ?u)"
    by (simp only: roundEven_of_int)
  then have "of_int (2 ^ 23) \<le> real_of_int (roundEven (a / ?u))"
    by (simp only: of_int_le_iff)
  then have "of_int (2 ^ 23) * ?u \<le> real_of_int (roundEven (a / ?u)) * ?u"
    by (intro mult_right_mono) simp_all
  then show ?thesis by (subst split) (simp add: magnitude32_def Let_def)
qed

lemma magnitude32_mono:
  assumes "a \<le> b"
  shows "magnitude32 a \<le> magnitude32 b"
proof (cases "exponent32 a = exponent32 b")
  case True
  let ?u = "(2::real) powi (exponent32 b - 23)"
  from assms have "a / ?u \<le> b / ?u" by (simp add: divide_right_mono)
  from roundEven_mono [OF this]
  have "real_of_int (roundEven (a / ?u)) * ?u \<le> real_of_int (roundEven (b / ?u)) * ?u"
    by (intro mult_right_mono) simp_all
  with True show ?thesis by (simp add: magnitude32_def Let_def)
next
  case False
  with exponent32_mono [OF assms] have lt: "exponent32 a < exponent32 b" by simp
  with exponent32_range [of a] exponent32_range [of b]
  have "exponent32 a < 128" "- 126 < exponent32 b" by linarith+
  then have "magnitude32 a \<le> 2 powi (exponent32 a + 1)" "2 powi exponent32 b \<le> magnitude32 b"
    by (simp_all add: magnitude32_upper magnitude32_lower)
  moreover have "(2::real) powi (exponent32 a + 1) \<le> 2 powi exponent32 b"
    using lt by (intro power_int_increasing) auto
  ultimately show ?thesis by linarith
qed

lemma round32_not_NaN: "round32 x \<noteq> NaN"
  by (simp add: round32_def Let_def)

lemma round32_mono:
  assumes "x \<le> y"
  shows "round32 x \<le> round32 y"
proof -
  consider (pos) "0 \<le> x" | (mixed) "x < 0" "0 \<le> y" | (neg) "y < 0" using assms by linarith
  then show ?thesis
  proof cases
    case pos
    with assms have "magnitude32 \<bar>x\<bar> \<le> magnitude32 \<bar>y\<bar>" by (intro magnitude32_mono) simp
    with pos assms show ?thesis by (auto simp: round32_def Let_def)
  next
    case mixed
    have "0 \<le> magnitude32 \<bar>x\<bar>" "0 \<le> magnitude32 \<bar>y\<bar>" by (simp_all add: magnitude32_nonneg)
    with mixed show ?thesis by (auto simp: round32_def Let_def magnitude32_zero)
  next
    case neg
    with assms have "magnitude32 \<bar>y\<bar> \<le> magnitude32 \<bar>x\<bar>" by (intro magnitude32_mono) simp
    with neg assms show ?thesis by (auto simp: round32_def Let_def)
  qed
qed

lemma magnitude32_representable:
  assumes "0 \<le> m" "m < 2 ^ 24" "- 149 \<le> k"
  shows "magnitude32 (of_int m * 2 powi k) = of_int m * 2 powi k"
proof -
  let ?a = "real_of_int m * 2 powi k"
  let ?e = "exponent32 ?a"
  have e: "?e - 23 \<le> k"
  proof (cases "- 126 < ?e")
    case True
    then have "2 powi ?e \<le> ?a" by (rule exponent32_lower)
    moreover have "real_of_int m < 2 ^ 24"
      using assms by (simp flip: of_int_less_iff)
    then have "?a < 2 ^ 24 * 2 powi k"
      by (intro mult_strict_right_mono) simp_all
    moreover have "(2::real) ^ 24 * 2 powi k = 2 powi (k + 24)"
      by (simp add: power_int_add)
    ultimately have lt: "(2::real) powi ?e < 2 powi (k + 24)"
      by linarith
    have "?e < k + 24"
    proof (rule ccontr)
      assume "\<not> ?e < k + 24"
      then have "(2::real) powi (k + 24) \<le> 2 powi ?e"
        by (intro power_int_increasing) auto
      with lt show False by linarith
    qed
    then show ?thesis by simp
  next
    case False
    with exponent32_range [of ?a] have "?e = - 126" by simp
    with assms show ?thesis by simp
  qed
  define j where "j = nat (k - (?e - 23))"
  have "?a / 2 powi (?e - 23) = of_int m * 2 powi (k - (?e - 23))"
    by (simp add: power_int_diff)
  also have "(2::real) powi (k - (?e - 23)) = 2 ^ j"
    using e by (simp add: j_def power_int_def)
  also have "of_int m * (2::real) ^ j = of_int (m * 2 ^ j)" by simp
  finally have q: "?a / 2 powi (?e - 23) = of_int (m * 2 ^ j)" .
  have "real_of_int (m * 2 ^ j) * 2 powi (?e - 23) = ?a"
    using q by (simp add: field_simps del: of_int_mult of_int_power)
  then show ?thesis
    unfolding magnitude32_def Let_def q roundEven_of_int .
qed


lemma round32_normal:
  assumes "2 powi e \<le> \<bar>x\<bar>" "\<bar>x\<bar> < 2 powi (e + 1)" "- 126 \<le> e" "e \<le> 127"
  shows "round32 x =
    (let r = of_int (roundEven (\<bar>x\<bar> / 2 powi (e - 23))) * 2 powi (e - 23)
     in if 2 ^ 128 \<le> r then (if 0 < x then PInf else NInf)
        else Fin (if 0 \<le> x then r else - r))"
proof -
  from assms have "exponent32 \<bar>x\<bar> = e" by (intro exponent32_eq) simp_all
  then show ?thesis by (simp add: round32_def magnitude32_def Let_def)
qed

lemma round32_representable:
  assumes "\<bar>m\<bar> < 2 ^ 24" "- 149 \<le> k" "k \<le> 104"
  shows "round32 (of_int m * 2 powi k) = Fin (of_int m * 2 powi k)"
proof -
  have abs: "\<bar>real_of_int m * 2 powi k\<bar> = of_int \<bar>m\<bar> * 2 powi k"
    by (simp add: abs_mult)
  have mag: "magnitude32 (of_int \<bar>m\<bar> * 2 powi k) = of_int \<bar>m\<bar> * 2 powi k"
    using assms by (intro magnitude32_representable) simp_all
  have "real_of_int \<bar>m\<bar> < 2 ^ 24" using assms by (simp flip: of_int_less_iff)
  then have "of_int \<bar>m\<bar> * 2 powi k < 2 ^ 24 * (2::real) powi k"
    by (intro mult_strict_right_mono) simp_all
  also have "(2::real) powi k \<le> 2 powi 104"
    using assms by (intro power_int_increasing) simp_all
  then have "2 ^ 24 * (2::real) powi k \<le> 2 ^ 24 * 2 powi 104" by simp
  also have "(2::real) ^ 24 * 2 powi 104 = 2 ^ 128" by simp
  finally have small: "\<not> 2 ^ 128 \<le> of_int \<bar>m\<bar> * (2::real) powi k" by simp
  show ?thesis
  proof (cases "0 \<le> m")
    case True
    with small mag show ?thesis
      unfolding round32_def Let_def abs by (simp add: zero_le_mult_iff)
  next
    case False
    then have "real_of_int m * 2 powi k < 0"
      by (intro mult_neg_pos) simp_all
    then have "\<not> 0 \<le> real_of_int m * 2 powi k" by simp
    moreover from False have "- (real_of_int \<bar>m\<bar> * 2 powi k) = real_of_int m * 2 powi k" by simp
    ultimately show ?thesis using small mag
      unfolding round32_def Let_def abs by (simp del: of_int_abs)
  qed
qed

lemma round32_of_int: "\<bar>m\<bar> < 2 ^ 24 \<Longrightarrow> round32 (of_int m) = Fin (of_int m)"
  using round32_representable [of m 0] by simp

lemma round32_numeral:
  "numeral w < (2::int) ^ 24 \<Longrightarrow> round32 (numeral w) = Fin (numeral w)"
  "numeral w < (2::int) ^ 24 \<Longrightarrow> round32 (- numeral w) = Fin (- numeral w)"
  "round32 0 = Fin 0" "round32 1 = Fin 1"
  using round32_of_int [of "numeral w"] round32_of_int [of "- numeral w"]
    round32_of_int [of 0] round32_of_int [of 1]
  by simp_all

lemma rnd_NaN_iff: "rnd a = NaN \<longleftrightarrow> a = NaN"
  by (cases a) (simp_all add: round32_not_NaN)


section \<open>The triplet test as a chain of cuts\<close>

lemma fl_mult_twice: "(a * Fin s) * Fin s = a * (Fin s * Fin s)"
  by (cases a) (auto simp: mult_less_0_iff zero_less_mult_iff not_less)

lemma tripletTest_chain:
  "tripletTest cfg rM covrM covzM lb lt uninit = tripletVerdict cfg rM covrM covzM lb lt"
  by (simp add: tripletTest_def tripletVerdict_def Let_def cdiv_def tripletError2_def
      deltaCotTheta2_def scatterD_def iSinTheta2_def sigmaScattering2_def conformalDU_def
      conformalA_def conformalS2_def conformalB_def conformalB2_def p2scatter_def
      scatteringInRegion2_def impactParameter_def fl_mult_twice
      one_plus_square_not_zero fsqrt_one_plus_square_not_zero)

section \<open>The doublet builder on a radius-sorted bin\<close>

text \<open>
  On a bin in radius order the early \<^verbatim>\<open>break\<close> loses no candidate, because rounding
  is monotone: each loop keeps exactly the candidates that satisfy the three cuts,
  and those inside the \<open>\<Delta>R\<close> window whose quotient is not a number.
\<close>

lemma cuts_iff:
  assumes "Fin lo \<le> dR" "dR \<le> Fin hi"
  shows "(\<not> \<bar>cotTh\<bar> > Fin (cotThetaMax cfg) \<and>
          \<not> (zOriginOf m cotTh < Fin (collisionRegionMin cfg) \<or>
              zOriginOf m cotTh > Fin (collisionRegionMax cfg)))
         \<longleftrightarrow> (\<bar>cotTh\<bar> \<le> Fin (cotThetaMax cfg) \<and>
                Fin (collisionRegionMin cfg) \<le> zOriginOf m cotTh \<and>
                zOriginOf m cotTh \<le> Fin (collisionRegionMax cfg)) \<or> cotTh = NaN"
proof (cases cotTh)
  case (Fin c)
  have "zOriginOf m cotTh \<noteq> NaN"
    unfolding zOriginOf_def sub32_def mul32_def Fin
    by (cases "round32 (isp_radius m * c)") (simp_all add: round32_not_NaN)
  then show ?thesis by (auto simp: Fin fl_not_less not_less)
next
  case PInf
  then show ?thesis by simp
next
  case NInf
  then show ?thesis by simp
next
  case NaN
  then show ?thesis by (simp add: zOriginOf_def sub32_def mul32_def)
qed


lemma bottomDeltaR_not_NaN: "bottomDeltaR m b \<noteq> NaN"
  by (simp add: bottomDeltaR_def sub32_def round32_not_NaN)

lemma topDeltaR_not_NaN: "topDeltaR m t \<noteq> NaN"
  by (simp add: topDeltaR_def sub32_def round32_not_NaN)

lemma bottomDeltaR_antimono:
  "isp_radius b \<le> isp_radius p \<Longrightarrow> bottomDeltaR m p \<le> bottomDeltaR m b"
  by (simp add: bottomDeltaR_def sub32_def round32_mono)

lemma topDeltaR_mono:
  "isp_radius t \<le> isp_radius p \<Longrightarrow> topDeltaR m t \<le> topDeltaR m p"
  by (simp add: topDeltaR_def sub32_def round32_mono)

lemma bottomBinLoop_step:
  "bottomBinLoop cfg m (b # bin) =
    (if bottomDeltaR m b > Fin (deltaRMax cfg) then bottomBinLoop cfg m bin
     else if bottomDeltaR m b < Fin (deltaRMin cfg) then []
     else if \<not> \<bar>bottomCotTheta m b\<bar> > Fin (cotThetaMax cfg) \<and>
             \<not> (zOriginOf m (bottomCotTheta m b) < Fin (collisionRegionMin cfg) \<or>
                 zOriginOf m (bottomCotTheta m b) > Fin (collisionRegionMax cfg))
          then b # bottomBinLoop cfg m bin
          else bottomBinLoop cfg m bin)"
  by (simp add: Let_def bottomDeltaR_def bottomCotTheta_def zOriginOf_def)

lemma topBinLoop_step:
  "topBinLoop cfg m (t # bin) =
    (if topDeltaR m t < Fin (deltaRMin cfg) then topBinLoop cfg m bin
     else if topDeltaR m t > Fin (deltaRMax cfg) then []
     else if \<not> \<bar>topCotTheta m t\<bar> > Fin (cotThetaMax cfg) \<and>
             \<not> (zOriginOf m (topCotTheta m t) < Fin (collisionRegionMin cfg) \<or>
                 zOriginOf m (topCotTheta m t) > Fin (collisionRegionMax cfg))
          then t # topBinLoop cfg m bin
          else topBinLoop cfg m bin)"
  by (simp add: Let_def topDeltaR_def topCotTheta_def zOriginOf_def)

lemma bottomBinLoop_filter:
  "sorted (map isp_radius bin) \<Longrightarrow>
   bottomBinLoop cfg m bin =
     filter (\<lambda>b. bottomCompatible cfg m b \<or>
                  undefinedQuotient cfg (bottomDeltaR m b) (bottomCotTheta m b)) bin"
proof (induction bin)
  case Nil
  then show ?case by simp
next
  case (Cons spB bin)
  let ?keep = "\<lambda>b. bottomCompatible cfg m b \<or>
                  undefinedQuotient cfg (bottomDeltaR m b) (bottomCotTheta m b)"
  from Cons have IH: "bottomBinLoop cfg m bin = filter ?keep bin"
    and le: "\<forall>p \<in> set bin. isp_radius spB \<le> isp_radius p" by auto
  consider (far) "bottomDeltaR m spB > Fin (deltaRMax cfg)"
    | (near) "\<not> bottomDeltaR m spB > Fin (deltaRMax cfg)" "bottomDeltaR m spB < Fin (deltaRMin cfg)"
    | (window) "Fin (deltaRMin cfg) \<le> bottomDeltaR m spB" "bottomDeltaR m spB \<le> Fin (deltaRMax cfg)"
    using fl_not_less [where a = "Fin (deltaRMax cfg)" and b = "bottomDeltaR m spB"]
      fl_not_less [where a = "bottomDeltaR m spB" and b = "Fin (deltaRMin cfg)"]
      bottomDeltaR_not_NaN [of m spB] by fastforce
  then show ?case
  proof cases
    case far
    then have "\<not> ?keep spB"
      by (auto simp: bottomCompatible_def withinCuts_def undefinedQuotient_def
          dest: fl_less_not_le)
    with far IH show ?thesis by (simp only: bottomBinLoop_step filter.simps if_True if_False)
  next
    case near
    have "\<not> ?keep p" if "p \<in> set (spB # bin)" for p
    proof -
      have "bottomDeltaR m p \<le> bottomDeltaR m spB"
        using that le by (auto intro: bottomDeltaR_antimono)
      with near have "bottomDeltaR m p < Fin (deltaRMin cfg)" by (auto intro: fl_le_less_trans)
      then show ?thesis
        by (auto simp: bottomCompatible_def withinCuts_def undefinedQuotient_def
            dest: fl_less_not_le)
    qed
    then have "filter ?keep (spB # bin) = []"
      by (simp only: filter_empty_conv) blast
    with near show ?thesis by (simp only: bottomBinLoop_step if_True if_False)
  next
    case window
    then have nf: "\<not> bottomDeltaR m spB > Fin (deltaRMax cfg)" "\<not> bottomDeltaR m spB < Fin (deltaRMin cfg)"
      by (auto dest: fl_less_not_le)
    have "(\<not> \<bar>bottomCotTheta m spB\<bar> > Fin (cotThetaMax cfg) \<and>
             \<not> (zOriginOf m (bottomCotTheta m spB) < Fin (collisionRegionMin cfg) \<or>
                 zOriginOf m (bottomCotTheta m spB) > Fin (collisionRegionMax cfg))) \<longleftrightarrow> ?keep spB"
      using cuts_iff [OF window, where cotTh = "bottomCotTheta m spB" and cfg = cfg and m = m] window
      by (simp add: bottomCompatible_def withinCuts_def undefinedQuotient_def)
    with nf IH show ?thesis by (simp only: bottomBinLoop_step filter.simps if_True if_False)
  qed
qed

lemma topBinLoop_filter:
  "sorted (map isp_radius bin) \<Longrightarrow>
   topBinLoop cfg m bin =
     filter (\<lambda>t. topCompatible cfg m t \<or>
                  undefinedQuotient cfg (topDeltaR m t) (topCotTheta m t)) bin"
proof (induction bin)
  case Nil
  then show ?case by simp
next
  case (Cons spT bin)
  let ?keep = "\<lambda>t. topCompatible cfg m t \<or>
                  undefinedQuotient cfg (topDeltaR m t) (topCotTheta m t)"
  from Cons have IH: "topBinLoop cfg m bin = filter ?keep bin"
    and le: "\<forall>p \<in> set bin. isp_radius spT \<le> isp_radius p" by auto
  consider (near) "topDeltaR m spT < Fin (deltaRMin cfg)"
    | (far) "\<not> topDeltaR m spT < Fin (deltaRMin cfg)" "topDeltaR m spT > Fin (deltaRMax cfg)"
    | (window) "Fin (deltaRMin cfg) \<le> topDeltaR m spT" "topDeltaR m spT \<le> Fin (deltaRMax cfg)"
    using fl_not_less [where a = "Fin (deltaRMax cfg)" and b = "topDeltaR m spT"]
      fl_not_less [where a = "topDeltaR m spT" and b = "Fin (deltaRMin cfg)"]
      topDeltaR_not_NaN [of m spT] by fastforce
  then show ?case
  proof cases
    case near
    then have "\<not> ?keep spT"
      by (auto simp: topCompatible_def withinCuts_def undefinedQuotient_def
          dest: fl_less_not_le)
    with near IH show ?thesis by (simp only: topBinLoop_step filter.simps if_True if_False)
  next
    case far
    have "\<not> ?keep p" if "p \<in> set (spT # bin)" for p
    proof -
      have "topDeltaR m spT \<le> topDeltaR m p"
        using that le by (auto intro: topDeltaR_mono)
      with far have "Fin (deltaRMax cfg) < topDeltaR m p" by (auto intro: fl_less_le_trans)
      then show ?thesis
        by (auto simp: topCompatible_def withinCuts_def undefinedQuotient_def
            dest: fl_less_not_le)
    qed
    then have "filter ?keep (spT # bin) = []"
      by (simp only: filter_empty_conv) blast
    with far show ?thesis by (simp only: topBinLoop_step if_True if_False)
  next
    case window
    then have nf: "\<not> topDeltaR m spT > Fin (deltaRMax cfg)" "\<not> topDeltaR m spT < Fin (deltaRMin cfg)"
      by (auto dest: fl_less_not_le)
    have "(\<not> \<bar>topCotTheta m spT\<bar> > Fin (cotThetaMax cfg) \<and>
             \<not> (zOriginOf m (topCotTheta m spT) < Fin (collisionRegionMin cfg) \<or>
                 zOriginOf m (topCotTheta m spT) > Fin (collisionRegionMax cfg))) \<longleftrightarrow> ?keep spT"
      using cuts_iff [OF window, where cotTh = "topCotTheta m spT" and cfg = cfg and m = m] window
      by (simp add: topCompatible_def withinCuts_def undefinedQuotient_def)
    with nf IH show ?thesis by (simp only: topBinLoop_step filter.simps if_True if_False)
  qed
qed

lemma undefinedQuotient_zero:
  assumes "undefinedQuotient cfg (sub32 (Fin r) (Fin r')) (div32 (sub32 (Fin z) (Fin z')) (sub32 (Fin r) (Fin r')))"
  shows "sub32 (Fin r) (Fin r') = Fin 0 \<and> sub32 (Fin z) (Fin z') = Fin 0 \<and>
         deltaRMin cfg \<le> 0 \<and> 0 \<le> deltaRMax cfg"
  using assms
  by (cases "round32 (r - r')"; cases "round32 (z - z')")
     (auto simp: undefinedQuotient_def div32_def sub32_def rnd_NaN_iff round32_not_NaN
        split: if_splits)

lemma positive_window_filter:
  assumes "sorted (map isp_radius bin)" "0 < deltaRMin cfg"
  shows "bottomBinLoop cfg m bin = filter (bottomCompatible cfg m) bin"
    and "topBinLoop cfg m bin = filter (topCompatible cfg m) bin"
proof -
  have b: "\<not> undefinedQuotient cfg (bottomDeltaR m p) (bottomCotTheta m p)" for p
    using undefinedQuotient_zero [of cfg "isp_radius m" "isp_radius p" "isp_z m" "isp_z p"]
      assms(2)
    by (auto simp: bottomDeltaR_def bottomCotTheta_def)
  have t: "\<not> undefinedQuotient cfg (topDeltaR m p) (topCotTheta m p)" for p
    using undefinedQuotient_zero [of cfg "isp_radius p" "isp_radius m" "isp_z p" "isp_z m"]
      assms(2)
    by (auto simp: topDeltaR_def topCotTheta_def)
  show "bottomBinLoop cfg m bin = filter (bottomCompatible cfg m) bin"
    by (simp add: bottomBinLoop_filter [OF assms(1)] b)
  show "topBinLoop cfg m bin = filter (topCompatible cfg m) bin"
    by (simp add: topBinLoop_filter [OF assms(1)] t)
qed

text \<open>
  Rounding decides at the boundary of the collision region: for the middle spacepoint
  at radius 42 and height 42 and the partner at radius 35 and height 10 the exact
  origin is \<open>-150\<close>, the rounded one is below it.
\<close>

lemma round32_examples:
  "round32 (32 / 7) = Fin (9586981 / 2097152)"
  "round32 (201326601 / 1048576) = Fin (12582913 / 65536)"
  "round32 (- (9830401 / 65536)) = Fin (- (9830401 / 65536))"
  by (simp_all add: round32_normal [of 2] round32_normal [of 7] roundEven_def)

lemma rounded_origin_below_region:
  "zOriginOf (pointAt 42 42) (bottomCotTheta (pointAt 42 42) (pointAt 35 10)) =
     Fin (- (9830401 / 65536))"
  "bottomBinLoop testFinder (pointAt 42 42) [pointAt 35 10] = []"
  "topBinLoop testFinder (pointAt 42 42) [pointAt 49 74] = []"
  by (simp_all add: zOriginOf_def bottomCotTheta_def bottomDeltaR_def pointAt_def
      testFinder_def testConfig_def Let_def sub32_def mul32_def div32_def
      round32_numeral round32_examples)

section \<open>The cuts of the triplet test\<close>









lemma topLoop_foldl:
  "foldl
      (\<lambda>(topSpVec, curvatures, impactParameters) t.
         case tripletTest cfg rM covrM covzM lb (linCircleTop ! t) (uninit t) of
           Accept curvature impact \<Rightarrow>
             (topSpVec @ [compatTopSP ! t], curvatures @ [curvature],
              impactParameters @ [impact])
         | _ \<Rightarrow> (topSpVec, curvatures, impactParameters))
      (tv, cv, iv) ts =
   (tv @ map fst (acceptedTops cfg rM covrM covzM lb compatTopSP linCircleTop ts),
    cv @ map (fst \<circ> snd) (acceptedTops cfg rM covrM covzM lb compatTopSP linCircleTop ts),
    iv @ map (snd \<circ> snd) (acceptedTops cfg rM covrM covzM lb compatTopSP linCircleTop ts))"
  by (induction ts arbitrary: tv cv iv)
     (auto simp: acceptedTops_def tripletTest_chain split: verdict.splits)

lemma topLoop_accepted:
  "topLoop cfg rM covrM covzM lb compatTopSP linCircleTop uninit =
   (map fst (acceptedTops cfg rM covrM covzM lb compatTopSP linCircleTop [0 ..< length compatTopSP]),
    map (fst \<circ> snd) (acceptedTops cfg rM covrM covzM lb compatTopSP linCircleTop [0 ..< length compatTopSP]),
    map (snd \<circ> snd) (acceptedTops cfg rM covrM covzM lb compatTopSP linCircleTop [0 ..< length compatTopSP]))"
  unfolding topLoop_def by (simp add: topLoop_foldl)



section \<open>The conformal transformation\<close>





lemma sqrt_inverse_squares: "sqrt (1 / 2500) = 1 / 50" "sqrt (1 / 10000) = 1 / 100"
  by (rule real_sqrt_unique; simp add: power2_eq_square)+

section \<open>The uninitialised variable\<close>

lemma bottomLoop_uninit:
  "bottomLoop cfg seedFilter spM compatBottomSP compatTopSP linCircleBottom linCircleTop uninit =
   bottomLoop cfg seedFilter spM compatBottomSP compatTopSP linCircleBottom linCircleTop uninit'"
  by (simp add: bottomLoop_def topLoop_accepted)

lemma middleStep_uninit:
  "middleStep cfg seedFilter uninit it spM outVec =
   middleStep cfg seedFilter uninit' it spM outVec"
  by (simp only: middleStep_def
      bottomLoop_uninit [of cfg seedFilter spM _ _ _ _ uninit uninit'])

lemma middleLoop_uninit:
  "middleLoop cfg seedFilter uninit it spIndices outVec =
   middleLoop cfg seedFilter uninit' it spIndices outVec"
proof (induction spIndices arbitrary: outVec)
  case Nil
  show ?case by simp
next
  case (Cons spIndex rest)
  have "middleStep cfg seedFilter (uninit spIndex) it (currentBin it ! spIndex) outVec =
        middleStep cfg seedFilter (uninit' spIndex) it (currentBin it ! spIndex) outVec"
    by (rule middleStep_uninit)
  with Cons.IH show ?case by (simp split: sum.splits)
qed

section \<open>The index build\<close>

lemma fillRBin_None: "fillRBin cfg covTool n rBins None = Inr rBins"
  by (simp add: fillRBin_def)

lemma fillRBin_Some:
  "fillRBin cfg covTool n rBins (Some sp) =
    (if \<not> inRegion cfg sp then Inr rBins
     else case to_size_t (isp_radius (internalOf cfg covTool sp)) of
            None \<Rightarrow> Inl UndefinedConversion
          | Some rIndex \<Rightarrow>
              if rIndex \<ge> n then Inr rBins
              else Inr (rBins[rIndex := rBins ! rIndex @ [internalOf cfg covTool sp]]))"
  by (auto simp: fillRBin_def inRegion_def internalOf_def Let_def split: option.splits)

lemma fillRBins_skip_null:
  "fillRBins cfg covTool n rBins (filter (\<lambda>p. p \<noteq> None) its) = fillRBins cfg covTool n rBins its"
  by (induction its arbitrary: rBins) (auto simp: fillRBin_None split: sum.splits)

lemma fillRBin_nth:
  assumes "fillRBin cfg covTool n rBins it = Inr r" and "length rBins = n"
  shows "length r = n \<and>
         (\<forall>k<n. r ! k = rBins ! k @
            map (internalOf cfg covTool)
              (filter (\<lambda>sp. inRegion cfg sp \<and> bucketOf cfg covTool sp = k) (nonNull [it])))"
proof (cases it)
  case None
  with assms show ?thesis by (simp add: fillRBin_None)
next
  case (Some sp)
  show ?thesis
  proof (cases "inRegion cfg sp")
    case False
    with assms Some show ?thesis
      by (auto simp: fillRBin_Some)
  next
    case True
    with assms Some obtain rIndex where
      conv: "to_size_t (isp_radius (internalOf cfg covTool sp)) = Some rIndex"
      and r: "r = (if rIndex \<ge> n then rBins else rBins[rIndex := rBins ! rIndex @ [internalOf cfg covTool sp]])"
      by (auto simp: fillRBin_Some split: option.splits if_splits)
    from conv have idx: "rIndex = bucketOf cfg covTool sp"
      by (auto simp: to_size_t_def bucketOf_def split: if_splits)
    from assms(2) show ?thesis
      by (auto simp: r idx Some True nth_list_update)
  qed
qed

lemma fillRBins_nth:
  assumes "fillRBins cfg covTool n rBins its = Inr r" and "length rBins = n"
  shows "length r = n \<and>
         (\<forall>k<n. r ! k = rBins ! k @
            map (internalOf cfg covTool)
              (filter (\<lambda>sp. inRegion cfg sp \<and> bucketOf cfg covTool sp = k) (nonNull its)))"
  using assms
proof (induction its arbitrary: rBins)
  case Nil
  then show ?case by simp
next
  case (Cons it its)
  from Cons.prems(1) obtain r1 where
    r1: "fillRBin cfg covTool n rBins it = Inr r1" and
    rest: "fillRBins cfg covTool n r1 its = Inr r"
    by (auto split: sum.splits)
  from fillRBin_nth [OF r1 Cons.prems(2)] have
    l1: "length r1 = n" and
    n1: "\<And>k. k < n \<Longrightarrow> r1 ! k = rBins ! k @
            map (internalOf cfg covTool)
              (filter (\<lambda>sp. inRegion cfg sp \<and> bucketOf cfg covTool sp = k) (nonNull [it]))"
    by auto
  from Cons.IH [OF rest l1] have
    l2: "length r = n" and
    n2: "\<And>k. k < n \<Longrightarrow> r ! k = r1 ! k @
            map (internalOf cfg covTool)
              (filter (\<lambda>sp. inRegion cfg sp \<and> bucketOf cfg covTool sp = k) (nonNull its))"
    by auto
  have "nonNull (it # its) = nonNull [it] @ nonNull its"
    by (cases it) simp_all
  with l2 n1 n2 show ?case by simp
qed

lemma fillRBins_flush:
  assumes "fillRBins cfg covTool n (replicate n []) its = Inr r"
  shows "r = map (\<lambda>k. map (internalOf cfg covTool)
                         (filter (\<lambda>sp. inRegion cfg sp \<and> bucketOf cfg covTool sp = k)
                            (nonNull its))) [0 ..< n]"
  using fillRBins_nth [OF assms] by (auto intro!: nth_equalityI)

lemma fillGrid_foldl:
  "bins (foldl
      (\<lambda>g isp.
         let spLocation = (isp_phi isp, isp_z isp);
             bin = globalBinFromPosition (axes g) spLocation
         in g\<lparr> bins := (bins g)(bin := bins g bin @ [isp]) \<rparr>) g isps) b =
    bins g b @ filter (\<lambda>p. globalBinFromPosition (axes g) (isp_phi p, isp_z p) = b) isps \<and>
   axes (foldl
      (\<lambda>g isp.
         let spLocation = (isp_phi isp, isp_z isp);
             bin = globalBinFromPosition (axes g) spLocation
         in g\<lparr> bins := (bins g)(bin := bins g bin @ [isp]) \<rparr>) g isps) = axes g"
  by (induction isps arbitrary: g) (simp_all add: Let_def)

lemma fillGrid_bins:
  "bins (fillGrid g rBins) b =
     bins g b @ filter (\<lambda>p. globalBinFromPosition (axes g) (isp_phi p, isp_z p) = b) (concat rBins)"
  and fillGrid_axes: "axes (fillGrid g rBins) = axes g"
  unfolding fillGrid_def using fillGrid_foldl [of g "concat rBins" b] by blast+

lemma initState_bins:
  assumes "initState cfg gridAxes sps covTool bottomFinder topFinder = Inr st"
  shows "bins (binnedSP st) b =
           filter (\<lambda>p. globalBinFromPosition (axes (binnedSP st)) (isp_phi p, isp_z p) = b)
             (flushOrder cfg covTool sps)"
proof -
  from assms obtain n r where
    n: "to_size_t (rMax cfg + norm2 (beamPos cfg)) = Some n" and
    r: "fillRBins cfg covTool n (replicate n []) sps = Inr r" and
    st: "binnedSP st = fillGrid (createGrid gridAxes
           \<lparr> grid_bFieldInZ = bFieldInZ cfg, grid_minPt = minPt cfg,
                       grid_rMax = rMax cfg, grid_zMax = zMax cfg, grid_zMin = zMin cfg,
                       grid_deltaRMax = deltaRMax cfg,
                       grid_cotThetaMax = cotThetaMax cfg \<rparr>) r"
    by (auto simp: initState_def Let_def split: option.splits sum.splits)
  from n have nn: "n = numRBinsOf cfg"
    by (auto simp: to_size_t_def numRBinsOf_def split: if_splits)
  from fillRBins_flush [OF r] have "concat r = flushOrder cfg covTool sps"
    by (simp add: flushOrder_def nn)
  then show ?thesis
    by (simp add: st fillGrid_bins fillGrid_axes createGrid_def)
qed


lemma sorted_constant_key: "\<forall>p \<in> set ps. key p = (c::nat) \<Longrightarrow> sorted (map key ps)"
  by (induction ps) auto

lemma sorted_buckets:
  assumes "\<And>k p. p \<in> set (f k) \<Longrightarrow> key p = (k::nat)"
  shows "sorted (map key (concat (map f [0 ..< n])))"
proof (induction n)
  case 0
  show ?case by simp
next
  case (Suc n)
  have "key a \<le> key b" if "a \<in> set (concat (map f [0 ..< n]))" "b \<in> set (f n)" for a b
  proof -
    from that(1) obtain k where "k < n" "a \<in> set (f k)" by auto
    with assms [of a k] assms [OF that(2)] show ?thesis by simp
  qed
  moreover have "sorted (map key (f n))"
    using assms by (intro sorted_constant_key [of _ _ n]) auto
  ultimately show ?case using Suc by (auto simp: sorted_append)
qed

lemma radius_nonneg: "0 \<le> isp_radius (internalOf cfg covTool sp)"
  by (simp add: internalOf_def makeInternalSpacePoint_def Let_def)

lemma flushOrder_sorted:
  "sorted (map (\<lambda>p. nat \<lfloor>isp_radius p\<rfloor>) (flushOrder cfg covTool sps))"
  unfolding flushOrder_def by (rule sorted_buckets) (auto simp: bucketOf_def)

lemma flushOrder_radius: "p \<in> set (flushOrder cfg covTool sps) \<Longrightarrow> 0 \<le> isp_radius p"
  by (auto simp: flushOrder_def radius_nonneg)

lemma floor_order_tolerance:
  assumes "nat \<lfloor>a\<rfloor> \<le> nat \<lfloor>b\<rfloor>" and "0 \<le> a" and "0 \<le> (b::real)"
  shows "a < b + 1"
proof -
  from assms(2,3) have "0 \<le> \<lfloor>a\<rfloor>" "0 \<le> \<lfloor>b\<rfloor>" by simp_all
  with assms(1) have "\<lfloor>a\<rfloor> \<le> \<lfloor>b\<rfloor>" by linarith
  then have "real_of_int \<lfloor>a\<rfloor> \<le> real_of_int \<lfloor>b\<rfloor>" by simp
  moreover have "a < real_of_int \<lfloor>a\<rfloor> + 1" by linarith
  moreover have "real_of_int \<lfloor>b\<rfloor> \<le> b" by linarith
  ultimately show ?thesis by linarith
qed

lemma internalOf_sp: "isp_sp (internalOf cfg covTool sp) = sp"
  by (simp add: internalOf_def makeInternalSpacePoint_def Let_def)

lemma internalOf_inject:
  "internalOf cfg covTool sp = internalOf cfg covTool sp' \<longleftrightarrow> sp = sp'"
proof
  assume "internalOf cfg covTool sp = internalOf cfg covTool sp'"
  then have "isp_sp (internalOf cfg covTool sp) = isp_sp (internalOf cfg covTool sp')"
    by (rule arg_cong)
  then show "sp = sp'" by (simp add: internalOf_sp)
qed simp

lemma mset_buckets:
  "mset (concat (map (\<lambda>k. map g (filter (\<lambda>sp. P sp \<and> key sp = k) sps)) [0 ..< n])) =
   mset (map g (filter (\<lambda>sp. P sp \<and> key sp < (n::nat)) sps))"
proof (induction n)
  case 0
  show ?case by simp
next
  case (Suc n)
  have "mset (map g (filter (\<lambda>sp. P sp \<and> key sp < Suc n) sps)) =
        mset (map g (filter (\<lambda>sp. P sp \<and> key sp < n) sps)) +
        mset (map g (filter (\<lambda>sp. P sp \<and> key sp = n) sps))"
    by (induction sps) (auto simp: less_Suc_eq)
  with Suc show ?case by simp
qed

lemma flushOrder_mset:
  "mset (flushOrder cfg covTool sps) =
   mset (map (internalOf cfg covTool)
          (filter (\<lambda>sp. inRegion cfg sp \<and> bucketOf cfg covTool sp < numRBinsOf cfg)
             (nonNull sps)))"
  unfolding flushOrder_def by (rule mset_buckets)

lemma flushOrder_member:
  "internalOf cfg covTool sp \<in> set (flushOrder cfg covTool sps) \<longleftrightarrow>
   sp \<in> set (nonNull sps) \<and> inRegion cfg sp \<and> bucketOf cfg covTool sp < numRBinsOf cfg"
proof -
  have "set (flushOrder cfg covTool sps) = set_mset (mset (flushOrder cfg covTool sps))"
    by simp
  also have "\<dots> = internalOf cfg covTool `
      {sp \<in> set (nonNull sps). inRegion cfg sp \<and> bucketOf cfg covTool sp < numRBinsOf cfg}"
    unfolding flushOrder_mset by auto
  finally show ?thesis by (auto simp: internalOf_inject)
qed

lemma fillRBins_defined:
  assumes "\<forall>sp \<in> set (nonNull its). inRegion cfg sp \<longrightarrow>
             isp_radius (internalOf cfg covTool sp) < 2 ^ 64"
  shows "\<exists>r. fillRBins cfg covTool n rBins its = Inr r"
  using assms
proof (induction its arbitrary: rBins)
  case Nil
  show ?case by simp
next
  case (Cons it its)
  have "\<exists>r1. fillRBin cfg covTool n rBins it = Inr r1"
  proof (cases it)
    case None
    then show ?thesis by (simp add: fillRBin_None)
  next
    case (Some sp)
    have "- 1 < isp_radius (internalOf cfg covTool sp)"
      using radius_nonneg [of cfg covTool sp] by linarith
    with Cons.prems Some show ?thesis
      by (auto simp: fillRBin_Some to_size_t_def)
  qed
  then obtain r1 where r1: "fillRBin cfg covTool n rBins it = Inr r1" by blast
  have "\<forall>sp \<in> set (nonNull its). inRegion cfg sp \<longrightarrow>
             isp_radius (internalOf cfg covTool sp) < 2 ^ 64"
    using Cons.prems by (cases it) auto
  from Cons.IH [OF this, of r1] r1 show ?case by simp
qed

lemma initState_defined:
  assumes "- 1 < rMax cfg + norm2 (beamPos cfg)" "rMax cfg + norm2 (beamPos cfg) < 2 ^ 64"
    and "\<forall>sp \<in> set (nonNull sps). inRegion cfg sp \<longrightarrow>
             isp_radius (internalOf cfg covTool sp) < 2 ^ 64"
  shows "\<exists>st. initState cfg gridAxes sps covTool bottomFinder topFinder = Inr st"
proof -
  from assms(1,2) obtain n where n: "to_size_t (rMax cfg + norm2 (beamPos cfg)) = Some n"
    by (simp add: to_size_t_def)
  from fillRBins_defined [OF assms(3)] obtain r where
    "fillRBins cfg covTool n (replicate n []) sps = Inr r" by blast
  with n show ?thesis by (simp add: initState_def Let_def)
qed


lemma bucket_less_iff:
  shows "bucketOf cfg covTool sp < numRBinsOf cfg \<longleftrightarrow>
      \<lfloor>isp_radius (internalOf cfg covTool sp)\<rfloor> < \<lfloor>rMax cfg + norm2 (beamPos cfg)\<rfloor>"
proof -
  have "0 \<le> \<lfloor>isp_radius (internalOf cfg covTool sp)\<rfloor>"
    using radius_nonneg [of cfg covTool sp] by simp
  then show ?thesis
    unfolding bucketOf_def numRBinsOf_def by (rule nat_less_eq_zless)
qed


lemma initState_bins_mset:
  assumes "initState cfg gridAxes sps covTool bottomFinder topFinder = Inr st"
  shows "mset (bins (binnedSP st) b) =
           mset (filter
                  (\<lambda>p. globalBinFromPosition (axes (binnedSP st)) (isp_phi p, isp_z p) = b)
                  (map (internalOf cfg covTool)
                     (filter (\<lambda>sp. inRegion cfg sp \<and>
                                \<lfloor>isp_radius (internalOf cfg covTool sp)\<rfloor>
                                  < \<lfloor>rMax cfg + norm2 (beamPos cfg)\<rfloor>)
                        (nonNull sps))))"
proof -
  have "mset (bins (binnedSP st) b) =
        filter_mset (\<lambda>p. globalBinFromPosition (axes (binnedSP st)) (isp_phi p, isp_z p) = b)
          (mset (flushOrder cfg covTool sps))"
    by (simp only: initState_bins [OF assms] mset_filter)
  also have "mset (flushOrder cfg covTool sps) =
      mset (map (internalOf cfg covTool)
                     (filter (\<lambda>sp. inRegion cfg sp \<and>
                                \<lfloor>isp_radius (internalOf cfg covTool sp)\<rfloor>
                                  < \<lfloor>rMax cfg + norm2 (beamPos cfg)\<rfloor>)
                        (nonNull sps)))"
    by (simp only: flushOrder_mset bucket_less_iff)
  finally show ?thesis by (simp only: mset_filter)
qed

lemma initState_dropped_iff:
  assumes "initState cfg gridAxes sps covTool bottomFinder topFinder = Inr st"
    and "sp \<in> set (nonNull sps)" and "inRegion cfg sp"
  shows "(\<forall>b. internalOf cfg covTool sp \<notin> set (bins (binnedSP st) b)) \<longleftrightarrow>
          \<lfloor>isp_radius (internalOf cfg covTool sp)\<rfloor> \<ge> \<lfloor>rMax cfg + norm2 (beamPos cfg)\<rfloor>"
proof -
  have "(\<exists>b. internalOf cfg covTool sp \<in> set (bins (binnedSP st) b)) \<longleftrightarrow>
          internalOf cfg covTool sp \<in> set (flushOrder cfg covTool sps)"
    by (simp add: initState_bins [OF assms(1)])
  also have "\<dots> \<longleftrightarrow> bucketOf cfg covTool sp < numRBinsOf cfg"
    using assms(2,3) by (simp only: flushOrder_member simp_thms)
  also have "\<dots> \<longleftrightarrow>
      \<lfloor>isp_radius (internalOf cfg covTool sp)\<rfloor> < \<lfloor>rMax cfg + norm2 (beamPos cfg)\<rfloor>"
    by (rule bucket_less_iff)
  finally show ?thesis by (auto simp: not_less)
qed

lemma atan2_on_axis: "0 < a \<Longrightarrow> atan2 0 a = 0"
  by (simp add: atan2_def)

lemma inRegion_spacePointAt:
  "0 < r \<Longrightarrow> inRegion (testConfig\<lparr> rMax := R \<rparr>) (spacePointAt r)"
  using pi_gt_zero by (simp add: inRegion_def spacePointAt_def testConfig_def atan2_on_axis)

lemma internalOf_spacePointAt:
  "0 < r \<Longrightarrow> internalOf (testConfig\<lparr> rMax := R \<rparr>) noCov (spacePointAt r) =
     \<lparr> isp_x = r, isp_y = 0, isp_z = 0, isp_radius = r, isp_phi = 0,
       isp_covr = 0, isp_covz = 0, isp_sp = spacePointAt r \<rparr>"
  by (simp add: internalOf_def makeInternalSpacePoint_def spacePointAt_def testConfig_def
      noCov_def atan2_on_axis)

lemma initState_sample:
  "initState smallConfig singleBin sampleRange noCov () () = Inr sampleState"
proof -
  have n: "to_size_t (rMax smallConfig + norm2 (beamPos smallConfig)) = Some 4"
    by (simp add: to_size_t_def smallConfig_def testConfig_def norm2_def)
  have c: "to_size_t 2 = Some 2" "to_size_t 1 = Some 1" "to_size_t 5 = Some 5"
    by (simp_all add: to_size_t_def)
  have r: "fillRBins smallConfig noCov 4 (replicate 4 []) sampleRange =
           Inr [[], [internalOf smallConfig noCov (spacePointAt 1)],
                [internalOf smallConfig noCov (spacePointAt 2)], []]"
    by (simp add: sampleRange_def fillRBin_None fillRBin_Some smallConfig_def
        inRegion_spacePointAt internalOf_spacePointAt c eval_nat_numeral)
  show ?thesis
    by (simp add: initState_def n r fillGrid_def createGrid_def singleBin_def singleBinAxes_def
        sampleState_def emptyBins_def Let_def fun_eq_iff del: fillRBins.simps)
qed

lemma initState_half:
  "initState halfConfig singleBin [Some (spacePointAt 10)] noCov () () = Inr emptyState"
proof -
  have n: "to_size_t (rMax halfConfig + norm2 (beamPos halfConfig)) = Some 10"
    by (simp add: to_size_t_def halfConfig_def testConfig_def norm2_def)
  have c: "to_size_t 10 = Some 10"
    by (simp add: to_size_t_def)
  have r: "fillRBins halfConfig noCov 10 (replicate 10 []) [Some (spacePointAt 10)] =
           Inr (replicate 10 [])"
    by (simp add: fillRBin_Some halfConfig_def inRegion_spacePointAt internalOf_spacePointAt c)
  show ?thesis
    by (simp add: initState_def n r fillGrid_def createGrid_def singleBin_def singleBinAxes_def
        emptyState_def emptyBins_def Let_def fun_eq_iff del: fillRBins.simps)
qed

section \<open>Claims\<close>

text \<open>
  C1. The claim fails on the code for a candidate at the radius and at the height of
  the middle spacepoint when zero lies in the \<open>\<Delta>R\<close> window. With \<open>deltaRMin = 0\<close> and
  the middle spacepoint at radius 80 and height 1000: the middle spacepoint itself,
  and the spacepoint at the same radius and height on the y axis, have \<open>\<Delta>R = 0\<close> and
  \<open>cot\<theta> = 0 / 0\<close>, not a number; the three rejection tests of either loop are false on
  it, and the candidate is kept although it satisfies neither the \<open>cot\<theta>\<close> cut nor the
  \<open>zOrigin\<close> cut. The candidate at the same radius and height 0, whose quotient is
  infinite, is rejected by the \<open>cot\<theta>\<close> cut.
\<close>

theorem doublet_builder_keeps_undefined_quotient:
  "deltaRMin looseFinder = 0 \<and>
   bottomCotTheta (pointAt 80 1000) (pointAt 80 1000) = NaN \<and>
   bottomBinLoop looseFinder (pointAt 80 1000) [pointAt 80 1000] = [pointAt 80 1000] \<and>
   bottomBinLoop looseFinder (pointAt 80 1000) [pointAt 80 1000, asidePoint] =
     [pointAt 80 1000, asidePoint] \<and>
   \<not> bottomCompatible looseFinder (pointAt 80 1000) (pointAt 80 1000) \<and>
   \<not> bottomCompatible looseFinder (pointAt 80 1000) asidePoint \<and>
   topCotTheta (pointAt 80 1000) (pointAt 80 1000) = NaN \<and>
   topBinLoop looseFinder (pointAt 80 1000) [pointAt 80 1000] = [pointAt 80 1000] \<and>
   topBinLoop looseFinder (pointAt 80 1000) [pointAt 80 1000, asidePoint] =
     [pointAt 80 1000, asidePoint] \<and>
   \<not> topCompatible looseFinder (pointAt 80 1000) (pointAt 80 1000) \<and>
   \<not> topCompatible looseFinder (pointAt 80 1000) asidePoint \<and>
   bottomCotTheta (pointAt 80 1000) (pointAt 80 0) = PInf \<and>
   bottomBinLoop looseFinder (pointAt 80 1000) [pointAt 80 0] = [] \<and>
   topCotTheta (pointAt 80 1000) (pointAt 80 0) = NInf \<and>
   topBinLoop looseFinder (pointAt 80 1000) [pointAt 80 0] = []"
  by (simp add: looseFinder_def testFinder_def testConfig_def pointAt_def asidePoint_def
      Let_def bottomCompatible_def topCompatible_def withinCuts_def zOriginOf_def
      bottomCotTheta_def bottomDeltaR_def topCotTheta_def topDeltaR_def
      sub32_def mul32_def div32_def round32_numeral)








text \<open>
  C5. After \<^verbatim>\<open>initState\<close> has returned a state, for every bin \<open>b\<close> of the grid and
  every two positions \<open>i < j\<close> of that bin, \<open>radius i < radius j + 1\<close>.
\<close>

theorem initState_bins_radius_sorted:
  assumes "initState cfg gridAxes sps covTool bottomFinder topFinder = Inr st"
  shows "\<forall>b i j. i < j \<and> j < length (bins (binnedSP st) b) \<longrightarrow>
           isp_radius (bins (binnedSP st) b ! i) < isp_radius (bins (binnedSP st) b ! j) + 1"
proof (intro allI impI)
  fix b i j
  assume ij: "i < j \<and> j < length (bins (binnedSP st) b)"
  let ?L = "bins (binnedSP st) b"
  have L: "?L = filter (\<lambda>p. globalBinFromPosition (axes (binnedSP st)) (isp_phi p, isp_z p) = b)
             (flushOrder cfg covTool sps)"
    by (rule initState_bins [OF assms])
  have "sorted (map (\<lambda>p. nat \<lfloor>isp_radius p\<rfloor>) ?L)"
    unfolding L by (rule sorted_filter) (rule flushOrder_sorted)
  with ij have "nat \<lfloor>isp_radius (?L ! i)\<rfloor> \<le> nat \<lfloor>isp_radius (?L ! j)\<rfloor>"
    by (auto simp: sorted_iff_nth_mono dest!: spec [of _ i] spec [of _ j])
  moreover have "?L ! i \<in> set (flushOrder cfg covTool sps)" "?L ! j \<in> set (flushOrder cfg covTool sps)"
  proof -
    from ij have "?L ! i \<in> set ?L" "?L ! j \<in> set ?L" by simp_all
    then show "?L ! i \<in> set (flushOrder cfg covTool sps)" "?L ! j \<in> set (flushOrder cfg covTool sps)"
      unfolding L by simp_all
  qed
  ultimately show "isp_radius (?L ! i) < isp_radius (?L ! j) + 1"
    by (intro floor_order_tolerance flushOrder_radius)
qed


theorem initState_bins_radius_sorted_witness:
  "initState smallConfig singleBin sampleRange noCov () () = Inr sampleState \<and>
   bins (binnedSP sampleState) 0 =
     [internalOf smallConfig noCov (spacePointAt 1),
      internalOf smallConfig noCov (spacePointAt 2)] \<and>
   isp_radius (bins (binnedSP sampleState) 0 ! 0)
     < isp_radius (bins (binnedSP sampleState) 0 ! 1) + 1"
proof -
  have b: "bins (binnedSP sampleState) 0 =
     [internalOf smallConfig noCov (spacePointAt 1),
      internalOf smallConfig noCov (spacePointAt 2)]"
    by (simp add: sampleState_def)
  then have l: "(0::nat) < 1 \<and> 1 < length (bins (binnedSP sampleState) 0)"
    by simp
  from initState_bins_radius_sorted [OF initState_sample]
  have "(0::nat) < 1 \<and> 1 < length (bins (binnedSP sampleState) 0) \<longrightarrow>
     isp_radius (bins (binnedSP sampleState) 0 ! 0)
     < isp_radius (bins (binnedSP sampleState) 0 ! 1) + 1"
    by blast
  with l have "isp_radius (bins (binnedSP sampleState) 0 ! 0)
     < isp_radius (bins (binnedSP sampleState) 0 ! 1) + 1"
    by blast
  with b initState_sample show ?thesis by blast
qed

text \<open>
  C6 (amended). \<^verbatim>\<open>initState\<close> returns a state whenever its conversions to
  \<^verbatim>\<open>size_t\<close> are defined (no spacepoint makes it fail otherwise). In the state it
  returns, every bin holds exactly the internal spacepoints of the non-null, in-region
  inputs with \<open>\<lfloor>r\<rfloor> < \<lfloor>rMax + |beamPos|\<rfloor>\<close> whose position falls into that bin, each as
  often as it occurs in the input; so a non-null in-region spacepoint is in no bin
  exactly when \<open>\<lfloor>r\<rfloor> \<ge> \<lfloor>rMax + |beamPos|\<rfloor>\<close>, the number of radius buckets.
\<close>

theorem initState_index_contents:
  "(- 1 < rMax cfg + norm2 (beamPos cfg) \<and> rMax cfg + norm2 (beamPos cfg) < 2 ^ 64 \<and>
    (\<forall>sp \<in> set (nonNull sps). inRegion cfg sp \<longrightarrow>
       isp_radius (internalOf cfg covTool sp) < 2 ^ 64) \<longrightarrow>
    (\<exists>st. initState cfg gridAxes sps covTool bottomFinder topFinder = Inr st)) \<and>
   (\<forall>st. initState cfg gridAxes sps covTool bottomFinder topFinder = Inr st \<longrightarrow>
      (\<forall>b. mset (bins (binnedSP st) b) =
           mset (filter
                  (\<lambda>p. globalBinFromPosition (axes (binnedSP st)) (isp_phi p, isp_z p) = b)
                  (map (internalOf cfg covTool)
                     (filter (\<lambda>sp. inRegion cfg sp \<and>
                                \<lfloor>isp_radius (internalOf cfg covTool sp)\<rfloor>
                                  < \<lfloor>rMax cfg + norm2 (beamPos cfg)\<rfloor>)
                        (nonNull sps))))) \<and>
      (\<forall>sp \<in> set (nonNull sps). inRegion cfg sp \<longrightarrow>
         ((\<forall>b. internalOf cfg covTool sp \<notin> set (bins (binnedSP st) b)) \<longleftrightarrow>
          \<lfloor>isp_radius (internalOf cfg covTool sp)\<rfloor> \<ge> \<lfloor>rMax cfg + norm2 (beamPos cfg)\<rfloor>)))"
proof -
  have 1: "- 1 < rMax cfg + norm2 (beamPos cfg) \<and> rMax cfg + norm2 (beamPos cfg) < 2 ^ 64 \<and>
    (\<forall>sp \<in> set (nonNull sps). inRegion cfg sp \<longrightarrow>
       isp_radius (internalOf cfg covTool sp) < 2 ^ 64) \<longrightarrow>
    (\<exists>st. initState cfg gridAxes sps covTool bottomFinder topFinder = Inr st)"
    using initState_defined [of cfg sps covTool gridAxes bottomFinder topFinder] by blast
  from 1 initState_bins_mset [of cfg gridAxes sps covTool bottomFinder topFinder]
    initState_dropped_iff [of cfg gridAxes sps covTool bottomFinder topFinder]
  show ?thesis by blast
qed


theorem initState_index_contents_witness:
  "- 1 < rMax smallConfig + norm2 (beamPos smallConfig) \<and>
   rMax smallConfig + norm2 (beamPos smallConfig) < 2 ^ 64 \<and>
   initState smallConfig singleBin sampleRange noCov () () = Inr sampleState \<and>
   spacePointAt 5 \<in> set (nonNull sampleRange) \<and> inRegion smallConfig (spacePointAt 5) \<and>
   \<lfloor>isp_radius (internalOf smallConfig noCov (spacePointAt 5))\<rfloor>
     \<ge> \<lfloor>rMax smallConfig + norm2 (beamPos smallConfig)\<rfloor> \<and>
   internalOf smallConfig noCov (spacePointAt 5) \<notin> set (bins (binnedSP sampleState) 0) \<and>
   mset (bins (binnedSP sampleState) 0) =
     {# internalOf smallConfig noCov (spacePointAt 1),
        internalOf smallConfig noCov (spacePointAt 2) #}"
proof -
  have a: "- 1 < rMax smallConfig + norm2 (beamPos smallConfig)"
    "rMax smallConfig + norm2 (beamPos smallConfig) < 2 ^ 64"
    by (simp_all add: smallConfig_def testConfig_def norm2_def)
  have m: "spacePointAt 5 \<in> set (nonNull sampleRange)"
    by (simp add: sampleRange_def)
  have i: "inRegion smallConfig (spacePointAt 5)"
    by (simp add: smallConfig_def inRegion_spacePointAt)
  have f: "\<lfloor>isp_radius (internalOf smallConfig noCov (spacePointAt 5))\<rfloor>
     \<ge> \<lfloor>rMax smallConfig + norm2 (beamPos smallConfig)\<rfloor>"
  proof -
    have "isp_radius (internalOf smallConfig noCov (spacePointAt 5)) = 5"
      by (simp add: smallConfig_def internalOf_spacePointAt)
    moreover have "rMax smallConfig + norm2 (beamPos smallConfig) = 4"
      by (simp add: smallConfig_def testConfig_def norm2_def)
    ultimately show ?thesis by simp
  qed
  from initState_index_contents
    [of smallConfig sampleRange noCov singleBin "()" "()"] initState_sample m i f
  have d: "internalOf smallConfig noCov (spacePointAt 5) \<notin> set (bins (binnedSP sampleState) 0)"
    by blast
  have b: "mset (bins (binnedSP sampleState) 0) =
     {# internalOf smallConfig noCov (spacePointAt 1),
        internalOf smallConfig noCov (spacePointAt 2) #}"
    by (simp add: sampleState_def)
  from a initState_sample m i f d b show ?thesis by simp
qed

text \<open>
  The claim as stated fails where \<open>rMax + |beamPos|\<close> is not an integer: with
  \<open>rMax = 10.5\<close> the spacepoint at radius 10 is dropped, although
  \<open>\<lfloor>10\<rfloor> \<ge> 10.5\<close> does not hold.
\<close>

theorem initState_index_contents_counterexample:
  "inRegion halfConfig (spacePointAt 10) \<and>
   initState halfConfig singleBin [Some (spacePointAt 10)] noCov () () = Inr emptyState \<and>
   bins (binnedSP emptyState) = emptyBins \<and>
   \<not> real_of_int \<lfloor>isp_radius (internalOf halfConfig noCov (spacePointAt 10))\<rfloor>
       \<ge> rMax halfConfig + norm2 (beamPos halfConfig)"
proof -
  have i: "inRegion halfConfig (spacePointAt 10)"
    by (simp add: halfConfig_def inRegion_spacePointAt)
  have b: "bins (binnedSP emptyState) = emptyBins"
    by (simp add: emptyState_def)
  have r: "isp_radius (internalOf halfConfig noCov (spacePointAt 10)) = 10"
    by (simp add: halfConfig_def internalOf_spacePointAt)
  have m: "rMax halfConfig + norm2 (beamPos halfConfig) = 21 / 2"
    by (simp add: halfConfig_def testConfig_def norm2_def)
  have "\<not> real_of_int \<lfloor>isp_radius (internalOf halfConfig noCov (spacePointAt 10))\<rfloor>
       \<ge> rMax halfConfig + norm2 (beamPos halfConfig)"
    unfolding r m by simp
  with i initState_half b show ?thesis by blast
qed

text \<open>
  C7 (amended). The constructor checks no bound and signals no error: for every
  configuration it returns the finder that holds the configuration and the five
  derived constants.
\<close>

theorem constructor_never_fails:
  "Seedfinder cfg =
     Inr (cfg\<lparr> highland := Fin 13.6 * fsqrt (Fin (radLengthPerSeed cfg)) *
                   (Fin 1 + Fin 0.038 * flog (Fin (radLengthPerSeed cfg))),
               maxScatteringAngle2 :=
                 fpow2 (Fin 13.6 * fsqrt (Fin (radLengthPerSeed cfg)) *
                   (Fin 1 + Fin 0.038 * flog (Fin (radLengthPerSeed cfg))) / Fin (minPt cfg)),
               pTPerHelixRadius := Fin (300 * bFieldInZ cfg),
               minHelixDiameter2 := fpow2 (Fin (minPt cfg * 2) / Fin (300 * bFieldInZ cfg)),
               pT2perRadius :=
                 fpow2 (Fin 13.6 * fsqrt (Fin (radLengthPerSeed cfg)) *
                   (Fin 1 + Fin 0.038 * flog (Fin (radLengthPerSeed cfg))) /
                   Fin (300 * bFieldInZ cfg)) \<rparr>) \<and>
   \<not> isl (Seedfinder cfg)"
  by (simp add: Seedfinder_def Let_def fpow2_def)

theorem constructor_never_fails_witness:
  "Seedfinder testConfig = Inr testFinder \<and> \<not> inconsistentBounds testConfig"
proof -
  from constructor_never_fails [of testConfig]
  have "Seedfinder testConfig = Inr testFinder"
    by (simp add: testFinder_def testConfig_def fpow2_def)
  moreover have "\<not> inconsistentBounds testConfig"
    using pi_gt_zero by (simp add: testConfig_def inconsistentBounds_def not_le)
  ultimately show ?thesis by simp
qed

text \<open>
  The claim as stated fails: the configuration with \<open>deltaRMin > deltaRMax\<close>,
  \<open>minPt = 0\<close> and empty \<open>\<phi>\<close> and \<open>z\<close> ranges is constructed like any other.
\<close>

theorem constructor_never_fails_counterexample:
  "inconsistentBounds badConfig \<and>
   deltaRMin badConfig > deltaRMax badConfig \<and> minPt badConfig \<le> 0 \<and>
   phiMin badConfig > phiMax badConfig \<and> zMin badConfig > zMax badConfig \<and>
   Seedfinder badConfig =
     Inr (badConfig\<lparr> highland := Fin (68 / 5), maxScatteringAngle2 := PInf,
            pTPerHelixRadius := Fin (3 / 5), minHelixDiameter2 := Fin 0,
            pT2perRadius := Fin (4624 / 9) \<rparr>)"
  by (simp add: Seedfinder_def Let_def fpow2_def badConfig_def testConfig_def
      inconsistentBounds_def)

text \<open>
  C8. For every (bottom, top) pair the triplet test never divides by zero: when
  \<open>dU = t.U - b.U\<close> is zero the pair is rejected by one of the two cuts that precede
  the first division (the scattering-in-region cut or the \<open>dU = 0\<close> guard), the
  divisors \<open>S2\<close> and \<open>sqrt S2\<close> of the later divisions are never zero, and every
  outcome is either a rejection (no seed for the candidate) or an acceptance.
\<close>

theorem tripletTest_never_divides_by_zero:
  "tripletTest cfg rM covrM covzM lb lt uninit \<noteq> DivisionByZero \<and>
   (U lt - U lb = Fin 0 \<longrightarrow>
      tripletTest cfg rM covrM covzM lb lt uninit = RejectScatteringInRegion \<or>
      tripletTest cfg rM covrM covzM lb lt uninit = RejectParallel) \<and>
   (isRejection (tripletTest cfg rM covrM covzM lb lt uninit) \<or>
    (\<exists>curvature impact. tripletTest cfg rM covrM covzM lb lt uninit = Accept curvature impact))"
  by (simp add: tripletTest_chain tripletVerdict_def isRejection_def conformalDU_def)

theorem tripletTest_never_divides_by_zero_witness:
  "U straightBottom - U straightBottom = Fin 0 \<and>
   tripletTest testFinder 80 0 0 straightBottom straightBottom NaN = RejectParallel \<and>
   tripletTest testFinder 80 0 0 straightBottom straightBottom NaN \<noteq> DivisionByZero"
  using tripletTest_never_divides_by_zero [of testFinder 80 0 0 straightBottom straightBottom NaN]
  by (simp add: tripletTest_def Let_def cdiv_def testFinder_def testConfig_def
      straightBottom_def)

text \<open>
  C9. \<^verbatim>\<open>createSeedsForRegion\<close> is a function of the configuration, the seed filter,
  the iterator (the index and the cells the bin finders gave) and the output vector:
  two runs on the same arguments return the same output vector, whatever the
  uninitialised variable \<^verbatim>\<open>dCotThetaMinusError2\<close> holds in each iteration of each
  run (it is read only after it was assigned).
\<close>

theorem createSeedsForRegion_deterministic:
  "createSeedsForRegion cfg seedFilter uninit it outVec =
   createSeedsForRegion cfg seedFilter uninit' it outVec"
  unfolding createSeedsForRegion_def by (rule middleLoop_uninit)

theorem createSeedsForRegion_deterministic_witness:
  "createSeedsForRegion testFinder testFilter (\<lambda>spIndex b t. NaN) scenarioIterator [[]] =
     Inr [[(pointAt 30 0, pointAt 80 0, pointAt 180 0)]] \<and>
   createSeedsForRegion testFinder testFilter (\<lambda>spIndex b t. PInf) scenarioIterator [[]] =
     Inr [[(pointAt 30 0, pointAt 80 0, pointAt 180 0)]]"
proof -
  have bot: "bottomBinLoop testFinder (pointAt 80 0) [pointAt 30 0, pointAt 80 0, pointAt 180 0] = [pointAt 30 0]"
    by (simp add: pointAt_def testFinder_def testConfig_def Let_def
        sub32_def mul32_def div32_def round32_numeral)
  have top: "topBinLoop testFinder (pointAt 80 0) [pointAt 30 0, pointAt 80 0, pointAt 180 0] = [pointAt 180 0]"
    by (simp add: pointAt_def testFinder_def testConfig_def Let_def
        sub32_def mul32_def div32_def round32_numeral)
  have lb: "transformCoordinates [pointAt 30 0] (pointAt 80 0) True [] = [straightBottom]"
    by (simp add: transformCoordinates_def pointAt_def straightBottom_def Let_def sqrt_inverse_squares)
  have lt: "transformCoordinates [pointAt 180 0] (pointAt 80 0) False [] = [straightTop]"
    by (simp add: transformCoordinates_def pointAt_def straightTop_def Let_def sqrt_inverse_squares)
  have tl: "topLoop testFinder 80 0 0 straightBottom [pointAt 180 0] [straightTop] (\<lambda>t. NaN) =
     ([pointAt 180 0], [Fin 0], [Fin 0])"
    by (simp add: topLoop_def tripletTest_def Let_def cdiv_def testFinder_def testConfig_def
        straightBottom_def straightTop_def)
  have r: "isp_radius (pointAt 80 0) = 80" "isp_covr (pointAt 80 0) = 0" "isp_covz (pointAt 80 0) = 0"
    by (simp_all add: pointAt_def)
  have run: "createSeedsForRegion testFinder testFilter (\<lambda>spIndex b t. NaN) scenarioIterator [[]] =
     Inr [[(pointAt 30 0, pointAt 80 0, pointAt 180 0)]]"
    by (simp add: createSeedsForRegion_def scenarioIterator_def middleStep_def bot top lb lt
        bottomLoop_def tl r testFilter_def
        del: bottomBinLoop.simps topBinLoop.simps)
  with createSeedsForRegion_deterministic
    [of testFinder testFilter "\<lambda>spIndex b t. PInf" scenarioIterator "[[]]" "\<lambda>spIndex b t. NaN"]
  show ?thesis by simp
qed

text \<open>
  C10. A null pointer in the input range of \<^verbatim>\<open>initState\<close> is skipped: the result
  (the state with its index, or the failure) is that of the range without its null
  pointers, and that of the range with any one null pointer removed.
\<close>

theorem initState_skips_null:
  "initState cfg gridAxes sps covTool bottomFinder topFinder =
     initState cfg gridAxes (filter (\<lambda>p. p \<noteq> None) sps) covTool bottomFinder topFinder \<and>
   initState cfg gridAxes (before @ None # after) covTool bottomFinder topFinder =
     initState cfg gridAxes (before @ after) covTool bottomFinder topFinder"
proof -
  have 1: "initState cfg gridAxes sps covTool bottomFinder topFinder =
     initState cfg gridAxes (filter (\<lambda>p. p \<noteq> None) sps) covTool bottomFinder topFinder"
    for sps :: "'a SpacePoint_scheme option list"
    by (simp only: initState_def fillRBins_skip_null)
  have "initState cfg gridAxes (before @ None # after) covTool bottomFinder topFinder =
     initState cfg gridAxes (filter (\<lambda>p. p \<noteq> None) (before @ None # after)) covTool bottomFinder topFinder"
    by (rule 1)
  also have "\<dots> = initState cfg gridAxes (filter (\<lambda>p. p \<noteq> None) (before @ after)) covTool bottomFinder topFinder"
    by simp
  also have "\<dots> = initState cfg gridAxes (before @ after) covTool bottomFinder topFinder"
    by (rule 1 [symmetric])
  finally show ?thesis using 1 by blast
qed

theorem initState_skips_null_witness:
  "initState smallConfig singleBin
     ([Some (spacePointAt 2)] @ None # [Some (spacePointAt 5), Some (spacePointAt 1)])
     noCov () () = Inr sampleState \<and>
   initState smallConfig singleBin
     ([Some (spacePointAt 2)] @ [Some (spacePointAt 5), Some (spacePointAt 1)])
     noCov () () = Inr sampleState"
proof -
  have s: "initState smallConfig singleBin
     ([Some (spacePointAt 2)] @ None # [Some (spacePointAt 5), Some (spacePointAt 1)])
     noCov () () = Inr sampleState"
    using initState_sample by (simp add: sampleRange_def)
  from initState_skips_null
    [of smallConfig singleBin sampleRange noCov "()" "()" "[Some (spacePointAt 2)]"
      "[Some (spacePointAt 5), Some (spacePointAt 1)]"]
  have e: "initState smallConfig singleBin
     ([Some (spacePointAt 2)] @ None # [Some (spacePointAt 5), Some (spacePointAt 1)])
     noCov () () =
   initState smallConfig singleBin
     ([Some (spacePointAt 2)] @ [Some (spacePointAt 5), Some (spacePointAt 1)])
     noCov () ()"
    by (rule conjunct2)
  from s have "initState smallConfig singleBin
     ([Some (spacePointAt 2)] @ [Some (spacePointAt 5), Some (spacePointAt 1)])
     noCov () () = Inr sampleState"
    unfolding e .
  with s show ?thesis by (rule conjI)
qed

end
